theory Spec2Isabelle
  imports Complex_Main "HOL-Library.AList" "HOL-Library.Sublist" "HOL-Library.Product_Lexorder"
    "HOL-Library.Code_Target_Nat"
begin

section \<open>Python values\<close>

text \<open>
  A Python \<open>str\<close> is a sequence of Unicode code points, so \<open>len\<close> counts code points;
  it is modelled as a list of code-point numbers. ASCII literals are written through
  \<open>asc\<close>; the Chinese characters of the source are named constants below.
\<close>

type_synonym ustr = "nat list"

definition asc :: "string \<Rightarrow> ustr" where
  "asc s = map of_char s"

text \<open>\<open>text[i:j]\<close> for non-negative \<open>i\<close>, \<open>j\<close>, and \<open>text[i:]\<close> as \<open>drop i text\<close>.\<close>

definition slice :: "'a list \<Rightarrow> nat \<Rightarrow> nat \<Rightarrow> 'a list" where
  "slice xs i j = take (j - i) (drop i xs)"

text \<open>
  \<open>text.rfind(c, lo, hi)\<close> for a one-character needle and \<open>0 \<le> lo\<close>: the highest index
  \<open>k\<close> with \<open>lo \<le> k < min hi (len text)\<close> and \<open>text[k] = c\<close>; Python's \<open>-1\<close> is \<open>None\<close>.
\<close>

definition rfind :: "'a list \<Rightarrow> 'a \<Rightarrow> nat \<Rightarrow> nat \<Rightarrow> nat option" where
  "rfind xs c lo hi =
     (case filter (\<lambda>k. xs ! k = c) (rev [lo ..< min hi (length xs)]) of
        [] \<Rightarrow> None
      | k # _ \<Rightarrow> Some k)"

definition NEWLINE :: nat where "NEWLINE = 10"
definition SPACE :: nat where "SPACE = 32"

text \<open>The ideographic full stop U+3002, the source's sentence terminator.\<close>

definition CN_PERIOD :: nat where "CN_PERIOD = 12290"



text \<open>
  \<open>s.split(c)\<close> for a one-character separator (at least one piece is returned),
  \<open>sep.join(pieces)\<close>, and \<open>sub in s\<close> / \<open>s.startswith(p)\<close>, which are \<open>sublist\<close> and
  \<open>prefix\<close> of the list library.
\<close>

fun split_on :: "'a \<Rightarrow> 'a list \<Rightarrow> 'a list list" where
  "split_on c [] = [[]]"
| "split_on c (x # xs) =
     (if x = c then [] # split_on c xs
      else (case split_on c xs of p # ps \<Rightarrow> (x # p) # ps | [] \<Rightarrow> [[x]]))"

fun join :: "'a list \<Rightarrow> 'a list list \<Rightarrow> 'a list" where
  "join sep [] = []"
| "join sep [p] = p"
| "join sep (p # q # ps) = p @ sep @ join sep (q # ps)"

text \<open>
  The characters for which \<open>str.isspace\<close> holds; \<open>str.strip()\<close> and the pattern class
  \<open>\s\<close> of \<open>re\<close> (on \<open>str\<close> patterns) use the same set.
\<close>

definition py_isspace :: "nat \<Rightarrow> bool" where
  "py_isspace c \<longleftrightarrow>
     (9 \<le> c \<and> c \<le> 13) \<or> (28 \<le> c \<and> c \<le> 32) \<or> c = 133 \<or> c = 160 \<or> c = 5760 \<or>
     (8192 \<le> c \<and> c \<le> 8202) \<or> c = 8232 \<or> c = 8233 \<or> c = 8239 \<or> c = 8287 \<or>
     c = 12288"

definition strip :: "ustr \<Rightarrow> ustr" where
  "strip s = rev (dropWhile py_isspace (rev (dropWhile py_isspace s)))"

text \<open>\<open>str(n)\<close> for a non-negative integer: its decimal digits.\<close>

fun digits_of :: "nat \<Rightarrow> ustr" where
  "digits_of n = (if n < 10 then [48 + n] else digits_of (n div 10) @ [48 + n mod 10])"

declare digits_of.simps [simp del]

definition str_of_int :: "int \<Rightarrow> ustr" where
  "str_of_int i = (if i < 0 then 45 # digits_of (nat (- i)) else digits_of (nat i))"

text \<open>
  The values a parsed JSON document and the records built from it hold. A \<open>float\<close> is
  given by the exact rational value of the double it denotes (comparison, equality and
  \<open>max\<close> of doubles are exact; NaN and the infinities are left out). A \<open>dict\<close> is an
  association list in insertion order; its keys are strings, as JSON object keys are.
\<close>

datatype pyval =
    PNone
  | PBool bool
  | PInt int
  | PFloat rat
  | PStr ustr
  | PList "pyval list"
  | PDict "(ustr \<times> pyval) list"

type_synonym pydict = "(ustr \<times> pyval) list"

text \<open>Truth value testing (\<open>if v:\<close>, \<open>not v\<close>).\<close>

fun truthy :: "pyval \<Rightarrow> bool" where
  "truthy PNone = False"
| "truthy (PBool b) = b"
| "truthy (PInt i) = (i \<noteq> 0)"
| "truthy (PFloat r) = (r \<noteq> 0)"
| "truthy (PStr s) = (s \<noteq> [])"
| "truthy (PList xs) = (xs \<noteq> [])"
| "truthy (PDict kvs) = (kvs \<noteq> [])"

text \<open>\<open>d.get(k)\<close> and \<open>d.get(k, default)\<close>; \<open>d[k] = v\<close> is \<open>AList.update k v d\<close>, which
  keeps the position of a key that is present and appends a new one.\<close>

definition dget :: "pydict \<Rightarrow> ustr \<Rightarrow> pyval" where
  "dget d k = (case map_of d k of Some v \<Rightarrow> v | None \<Rightarrow> PNone)"

definition dget_default :: "pydict \<Rightarrow> ustr \<Rightarrow> pyval \<Rightarrow> pyval" where
  "dget_default d k dflt = (case map_of d k of Some v \<Rightarrow> v | None \<Rightarrow> dflt)"

text \<open>
  \<open>isinstance(v, (int, float))\<close> holds exactly where \<open>num_of\<close> is defined (\<open>bool\<close> is a
  subclass of \<open>int\<close>); numbers compare by value across the three types.
\<close>

fun num_of :: "pyval \<Rightarrow> rat option" where
  "num_of (PBool b) = Some (if b then 1 else 0)"
| "num_of (PInt i) = Some (of_int i)"
| "num_of (PFloat r) = Some r"
| "num_of _ = None"

fun is_str :: "pyval \<Rightarrow> bool" where
  "is_str (PStr s) = True"
| "is_str _ = False"

text \<open>
  What the interpreter supplies and the repository does not define: the Unicode tables
  behind \<open>\d\<close> and \<open>int()\<close> (\<open>isdecimal\<close>, \<open>decimal_value\<close>), \<open>str.isdigit\<close>, \<open>\w\<close>
  (\<open>isalnum\<close> or an underscore), \<open>str.lower\<close>, \<open>str()\<close> of a value that is not a string
  (\<open>repr\<close>), the built-in \<open>hash\<close> of a string, which CPython salts per process, and
  the limit on the number of digits \<open>int()\<close> converts (4300 since Python 3.11, none
  before).
\<close>

record pyenv =
  isdecimal :: "nat \<Rightarrow> bool"
  decimal_value :: "nat \<Rightarrow> nat"
  isdigit :: "nat \<Rightarrow> bool"
  isalnum :: "nat \<Rightarrow> bool"
  lower :: "ustr \<Rightarrow> ustr"
  repr :: "pyval \<Rightarrow> ustr"
  hash :: "ustr \<Rightarrow> int"
  int_max_str_digits :: "nat option"

definition py_str :: "pyenv \<Rightarrow> pyval \<Rightarrow> ustr" where
  "py_str E v = (case v of PStr s \<Rightarrow> s | _ \<Rightarrow> repr E v)"

text \<open>
  A concrete interpreter for the examples. It agrees with CPython on ASCII and on the
  CJK Unified Ideographs U+4E00..U+9FFF, and on \<open>str()\<close> of \<open>None\<close>, booleans and
  integers; the examples use nothing else. The salted \<open>hash\<close> is its parameter.
\<close>

definition basic_repr :: "pyval \<Rightarrow> ustr" where
  "basic_repr v =
     (case v of
        PNone \<Rightarrow> asc ''None''
      | PBool b \<Rightarrow> (if b then asc ''True'' else asc ''False'')
      | PInt i \<Rightarrow> str_of_int i
      | _ \<Rightarrow> [])"

definition basic_env :: "(ustr \<Rightarrow> int) \<Rightarrow> pyenv" where
  "basic_env h =
     \<lparr> isdecimal = (\<lambda>c. 48 \<le> c \<and> c \<le> 57),
       decimal_value = (\<lambda>c. c - 48),
       isdigit = (\<lambda>c. 48 \<le> c \<and> c \<le> 57),
       isalnum = (\<lambda>c. (48 \<le> c \<and> c \<le> 57) \<or> (65 \<le> c \<and> c \<le> 90) \<or> (97 \<le> c \<and> c \<le> 122)
                      \<or> (19968 \<le> c \<and> c \<le> 40959)),
       lower = map (\<lambda>c. if 65 \<le> c \<and> c \<le> 90 then c + 32 else c),
       repr = basic_repr,
       hash = h,
       int_max_str_digits = Some 4300 \<rparr>"


text \<open>
  \<open>==\<close> on these values: numbers by value, strings and lists by content, dictionaries
  by their entries whatever the order. Two lemmas bound the size of a component for the
  termination proof.
\<close>

lemma size_zip_left:
  "(x, y) \<in> set (zip xs ys) \<Longrightarrow> size (x::pyval) < Suc (size_list size xs)"
  by (metis set_zip_leftD size_list_estimation' less_Suc_eq_le order_refl)

lemma size_dict_entry:
  "(k, v) \<in> set a \<Longrightarrow> size (v::pyval) < Suc (size_list (size_prod (\<lambda>_. 0) size) a)"
  by (induction a) auto

function py_eq :: "pyval \<Rightarrow> pyval \<Rightarrow> bool" where
  "py_eq (PStr a) w = (case w of PStr b \<Rightarrow> a = b | _ \<Rightarrow> False)"
| "py_eq PNone w = (case w of PNone \<Rightarrow> True | _ \<Rightarrow> False)"
| "py_eq (PList xs) w =
     (case w of
        PList ys \<Rightarrow> length xs = length ys \<and> list_all (\<lambda>(x, y). py_eq x y) (zip xs ys)
      | _ \<Rightarrow> False)"
| "py_eq (PDict a) w =
     (case w of
        PDict b \<Rightarrow>
          length a = length b \<and>
          list_all (\<lambda>(k, v). case map_of b k of Some w \<Rightarrow> py_eq v w | None \<Rightarrow> False) a
      | _ \<Rightarrow> False)"
| "py_eq (PBool x) w = (case num_of w of Some y \<Rightarrow> (if x then 1 else 0) = y | None \<Rightarrow> False)"
| "py_eq (PInt x) w = (case num_of w of Some y \<Rightarrow> of_int x = y | None \<Rightarrow> False)"
| "py_eq (PFloat x) w = (case num_of w of Some y \<Rightarrow> x = y | None \<Rightarrow> False)"
  by pat_completeness auto
termination
  by (relation "measure (\<lambda>(a, b). size a)")
     (auto dest: size_zip_left size_dict_entry)

text \<open>\<open>v in values\<close> for a list.\<close>

definition py_in :: "pyval \<Rightarrow> pyval list \<Rightarrow> bool" where
  "py_in v vs = list_ex (\<lambda>u. py_eq u v) vs"

text \<open>
  Exceptions, each with its message (\<open>str(e)\<close>). \<open>Exception\<close> is the plain class the
  workflow raises itself; \<open>OtherError\<close> stands for what a collaborator raises (network,
  database, file system). The messages of the errors the interpreter raises are those
  of CPython 3.11.
\<close>

datatype exn = TypeError ustr | ValueError ustr | Exception ustr | OtherError ustr

fun exn_msg :: "exn \<Rightarrow> ustr" where
  "exn_msg (TypeError m) = m"
| "exn_msg (ValueError m) = m"
| "exn_msg (Exception m) = m"
| "exn_msg (OtherError m) = m"


text \<open>
  \<open>int(s)\<close> for a non-empty string of decimal digits: the number they denote, or
  \<open>ValueError\<close> (here \<open>None\<close>) when there are more digits than the interpreter converts.
\<close>

definition py_int :: "pyenv \<Rightarrow> ustr \<Rightarrow> nat option" where
  "py_int E s =
     (case int_max_str_digits E of
        None \<Rightarrow> Some (foldl (\<lambda>n c. 10 * n + decimal_value E c) 0 s)
      | Some max_digits \<Rightarrow>
          if max_digits < length s then None
          else Some (foldl (\<lambda>n c. 10 * n + decimal_value E c) 0 s))"

text \<open>The type name of a value, as CPython's error messages print it.\<close>

fun type_name :: "pyval \<Rightarrow> ustr" where
  "type_name PNone = asc ''NoneType''"
| "type_name (PBool b) = asc ''bool''"
| "type_name (PInt i) = asc ''int''"
| "type_name (PFloat r) = asc ''float''"
| "type_name (PStr s) = asc ''str''"
| "type_name (PList xs) = asc ''list''"
| "type_name (PDict kvs) = asc ''dict''"

definition QUOTE :: nat where "QUOTE = 39"

section \<open>Text segmenter: \<open>content_extractor.split_by_tomb\<close>\<close>

definition HASH :: nat where "HASH = 35"
definition LETTER_M :: nat where "LETTER_M = 77"

text \<open>U+7B2C and U+8282, the two characters around a section number.\<close>

definition CN_DI :: nat where "CN_DI = 31532"
definition CN_JIE :: nat where "CN_JIE = 33410"

text \<open>The two characters U+53F7 U+5893 that end a tomb heading, and U+5893 U+846C.\<close>

definition HAO_MU :: ustr where "HAO_MU = [21495, 22675]"
definition MU_ZANG :: ustr where "MU_ZANG = [22675, 33900]"

text \<open>The character class of the numerals one to ten (U+4E00, U+4E8C, ..., U+5341).\<close>

definition CN_NUMERALS :: "nat list" where
  "CN_NUMERALS = [19968, 20108, 19977, 22235, 20116, 20845, 19971, 20843, 20061, 21313]"

text \<open>The alternation of tomb numbers, in the order of the pattern: one to ten, eleven,
  twelve.\<close>

definition TOMB_NUMBERS :: "ustr list" where
  "TOMB_NUMBERS = map (\<lambda>c. [c]) CN_NUMERALS @ [[21313, 19968], [21313, 20108]]"

text \<open>
  The group \<open>(...)\<close> of tomb numbers followed by the two closing characters, matched at
  the head of \<open>s\<close>: the first alternative after which the closing characters follow.
\<close>

definition match_tomb_number :: "ustr \<Rightarrow> ustr option" where
  "match_tomb_number s = List.find (\<lambda>a. prefix (a @ HAO_MU) s) TOMB_NUMBERS"

text \<open>
  \<open>^#{1,3}\<close> followed by something that is not a hash sign: the line starts with one to
  three hash signs, all of which are consumed (after fewer, the next character would be
  a hash sign, which is neither a space, nor white space, nor \<open>M\<close>, nor a numeral).
\<close>

definition after_hashes :: "ustr \<Rightarrow> ustr option" where
  "after_hashes line =
     (let n = length (takeWhile (\<lambda>c. c = HASH) line)
      in if 1 \<le> n \<and> n \<le> 3 then Some (drop n line) else None)"

text \<open>
  The optional group of pattern 1: U+7B2C, one or more numerals, U+8282, one or more
  white-space characters. The result is the rest of the line after the group. The
  quantifiers are greedy and giving characters back cannot help: after the numerals
  U+8282 must follow, which is no numeral, and after the white space a numeral must
  follow, which is no white space.
\<close>

definition section_prefix :: "ustr \<Rightarrow> ustr option" where
  "section_prefix s =
     (case s of
        [] \<Rightarrow> None
      | c # r \<Rightarrow>
          if c \<noteq> CN_DI then None
          else let nums = takeWhile (\<lambda>c. c \<in> set CN_NUMERALS) r;
                   r1 = dropWhile (\<lambda>c. c \<in> set CN_NUMERALS) r
               in if nums = [] then None
                  else (case r1 of
                          [] \<Rightarrow> None
                        | j # r2 \<Rightarrow>
                            if j \<noteq> CN_JIE then None
                            else if takeWhile py_isspace r2 = [] then None
                            else Some (dropWhile py_isspace r2)))"

text \<open>
  The three heading patterns, each returning its group 1 when \<open>re.search\<close> succeeds
  (the patterns are anchored with \<open>^\<close> and a line holds no newline).
\<close>

definition pattern1 :: "ustr \<Rightarrow> ustr option" where
  "pattern1 line =
     (case after_hashes line of
        None \<Rightarrow> None
      | Some [] \<Rightarrow> None
      | Some (c # r) \<Rightarrow>
          if c \<noteq> SPACE then None
          else (case section_prefix r of
                  Some r' \<Rightarrow>
                    (case match_tomb_number r' of
                       Some g \<Rightarrow> Some g
                     | None \<Rightarrow> match_tomb_number r)
                | None \<Rightarrow> match_tomb_number r))"

definition pattern2 :: "pyenv \<Rightarrow> ustr \<Rightarrow> ustr option" where
  "pattern2 E line =
     (case after_hashes line of
        None \<Rightarrow> None
      | Some r \<Rightarrow>
          (case dropWhile py_isspace r of
             [] \<Rightarrow> None
           | c # r' \<Rightarrow>
               if c \<noteq> LETTER_M then None
               else if takeWhile (isdecimal E) r' = [] then None
               else Some (takeWhile (isdecimal E) r')))"

definition pattern3 :: "ustr \<Rightarrow> ustr option" where
  "pattern3 line =
     (case after_hashes line of
        None \<Rightarrow> None
      | Some r \<Rightarrow> match_tomb_number (dropWhile py_isspace r))"

text \<open>
  The inner \<open>for pattern in patterns\<close> loop: the first pattern that matches names the
  new tomb, \<open>M\<close> and the digits for pattern 2 (the only pattern text that contains an
  \<open>M\<close>), the numeral and the two closing characters otherwise.
\<close>

definition match_heading :: "pyenv \<Rightarrow> ustr \<Rightarrow> ustr option" where
  "match_heading E line =
     (case pattern1 line of
        Some g \<Rightarrow> Some (g @ HAO_MU)
      | None \<Rightarrow>
          (case pattern2 E line of
             Some g \<Rightarrow> Some (LETTER_M # g)
           | None \<Rightarrow>
               (case pattern3 line of
                  Some g \<Rightarrow> Some (g @ HAO_MU)
                | None \<Rightarrow> None)))"

text \<open>
  One round of the loop over the lines. The state is \<open>(result, current_tomb,
  current_content)\<close>; a tomb name is never empty, so \<open>if current_tomb\<close> is the test for
  \<open>Some\<close>.
\<close>

type_synonym tomb_state = "(ustr \<times> ustr) list \<times> ustr option \<times> ustr list"

definition save_tomb :: "ustr \<Rightarrow> ustr list \<Rightarrow> (ustr \<times> ustr) list \<Rightarrow> (ustr \<times> ustr) list" where
  "save_tomb current_tomb current_content result =
     AList.update current_tomb (strip (join [NEWLINE] current_content)) result"

fun tomb_step :: "pyenv \<Rightarrow> tomb_state \<Rightarrow> ustr \<Rightarrow> tomb_state" where
  "tomb_step E (result, current_tomb, current_content) line =
     (case match_heading E line of
        Some name \<Rightarrow>
          (case current_tomb of
             Some t \<Rightarrow> (save_tomb t current_content result, Some name, [])
           | None \<Rightarrow> (result, Some name, current_content))
      | None \<Rightarrow>
          (case current_tomb of
             Some t \<Rightarrow> (result, current_tomb, current_content @ [line])
           | None \<Rightarrow> (result, current_tomb, current_content)))"

text \<open>After the loop the last tomb is saved, if it has any line.\<close>

fun tomb_finish :: "tomb_state \<Rightarrow> (ustr \<times> ustr) list" where
  "tomb_finish (result, current_tomb, current_content) =
     (case current_tomb of
        Some t \<Rightarrow> if current_content \<noteq> [] then save_tomb t current_content result else result
      | None \<Rightarrow> result)"

definition split_by_tomb :: "pyenv \<Rightarrow> ustr \<Rightarrow> (ustr \<times> ustr) list" where
  "split_by_tomb E full_text =
     tomb_finish (foldl (tomb_step E) ([], None, []) (split_on NEWLINE full_text))"

text \<open>
  For the statement of what the segmenter returns: the headings of a list of lines with
  the lines that follow each up to the next heading, and the lines before the first
  heading.
\<close>

fun sections :: "pyenv \<Rightarrow> ustr list \<Rightarrow> (ustr \<times> ustr list) list \<times> ustr list" where
  "sections E [] = ([], [])"
| "sections E (l # ls) =
     (case match_heading E l of
        Some name \<Rightarrow> ((name, snd (sections E ls)) # fst (sections E ls), [])
      | None \<Rightarrow> (fst (sections E ls), l # snd (sections E ls)))"

text \<open>A last heading with no line after it is not saved.\<close>

definition saved_sections :: "(ustr \<times> ustr list) list \<Rightarrow> (ustr \<times> ustr list) list" where
  "saved_sections secs = (if secs \<noteq> [] \<and> snd (last secs) = [] then butlast secs else secs)"

text \<open>A segment's text: the lines after its heading, joined by newlines and stripped.\<close>

definition segment_of :: "ustr \<times> ustr list \<Rightarrow> ustr \<times> ustr" where
  "segment_of nb = (fst nb, strip (join [NEWLINE] (snd nb)))"

text \<open>Storing a sequence of entries into a dictionary, one \<open>result[k] = v\<close> after the other.\<close>

definition store_all :: "('k \<times> 'v) list \<Rightarrow> ('k \<times> 'v) list \<Rightarrow> ('k \<times> 'v) list" where
  "store_all result kvs = foldl (\<lambda>r kv. AList.update (fst kv) (snd kv) r) result kvs"

text \<open>A text without its white space, for comparisons up to white space.\<close>

definition squeeze :: "ustr \<Rightarrow> ustr" where
  "squeeze s = filter (\<lambda>c. \<not> py_isspace c) s"

text \<open>An example report: a preamble and two tombs.\<close>

definition report_two_tombs :: ustr where
  "report_two_tombs =
     asc ''intro'' @ [NEWLINE] @ asc ''## M1'' @ [NEWLINE] @ asc '' A '' @ [NEWLINE] @
     asc ''## M2'' @ [NEWLINE] @ asc ''B''"

text \<open>An example report in which the heading \<open>## M1\<close> occurs twice.\<close>

definition report_repeated_tomb :: ustr where
  "report_repeated_tomb =
     asc ''## M1'' @ [NEWLINE] @ asc ''A'' @ [NEWLINE] @ asc ''## M1'' @ [NEWLINE] @ asc ''B''"

section \<open>Chunking of long segments: \<open>ExtractionWorkflow._split_large_text\<close>\<close>

text \<open>
  \<open>chunk_size\<close> and \<open>overlap\<close> are natural numbers: the defaults are 2000 and 200 and the
  only caller passes 3000 and 300. Truncating subtraction agrees with the source here,
  because both differences only occur under a \<open>max\<close> with a non-negative number.

  \<open>actual_end\<close> is the cut chosen in one round of the loop, taken when
  \<open>start + chunk_size < len(text)\<close>: after the last newline of the search window
  \<open>[max(start, end - overlap), end)\<close>, else after the last full stop there, else at
  \<open>end\<close> (the hard cut).
\<close>

definition actual_end :: "ustr \<Rightarrow> nat \<Rightarrow> nat \<Rightarrow> nat \<Rightarrow> nat" where
  "actual_end text chunk_size overlap start =
     (let endpos = start + chunk_size;
          search_start = max start (endpos - overlap)
      in case rfind text NEWLINE search_start endpos of
           Some last_newline \<Rightarrow> last_newline + 1
         | None \<Rightarrow>
             (case rfind text CN_PERIOD search_start endpos of
                Some last_period \<Rightarrow> last_period + 1
              | None \<Rightarrow> endpos))"

text \<open>
  The \<open>while start < len(text)\<close> loop; the chunks are returned in the order in which
  the source appends them. The next round starts at
  \<open>max(start + 1, actual_end - overlap)\<close> whatever kind of cut was made.
\<close>

function split_loop :: "ustr \<Rightarrow> nat \<Rightarrow> nat \<Rightarrow> nat \<Rightarrow> ustr list" where
  "split_loop text chunk_size overlap start =
     (if start < length text then
        (if start + chunk_size \<ge> length text then [drop start text]
         else slice text start (actual_end text chunk_size overlap start)
              # split_loop text chunk_size overlap
                  (max (start + 1) (actual_end text chunk_size overlap start - overlap)))
      else [])"
  by pat_completeness auto
termination
  by (relation "measure (\<lambda>(text, chunk_size, overlap, start). length text - start)") auto

declare split_loop.simps [simp del]

definition split_large_text :: "ustr \<Rightarrow> nat \<Rightarrow> nat \<Rightarrow> ustr list" where
  "split_large_text text chunk_size overlap =
     (if length text \<le> chunk_size then [text] else split_loop text chunk_size overlap 0)"

section \<open>Template schema resolver: \<open>TemplateAnalyzer.to_db_field_name\<close>\<close>

definition UNDERSCORE :: nat where "UNDERSCORE = 95"

text \<open>
  The dictionary literal \<open>mapping\<close> of the source, entry by entry in source order, the
  keys as code points. Some keys are written more than once in the literal; in a
  dictionary display the last value given for a key is the one kept, so the table is
  searched from its end.
\<close>

definition field_name_mapping :: "(ustr \<times> ustr) list" where
  "field_name_mapping = [
   ([38518, 22303, 31181, 31867], asc ''clay_type''),
   ([38518, 22303, 32431, 27905, 31243, 24230], asc ''clay_purity''),
   ([38518, 22303, 32431, 27905, 31243, 24230, 32], asc ''clay_purity''),
   ([38518, 22303, 32454, 33147, 31243, 24230], asc ''clay_fineness''),
   ([38518, 22303, 32454, 33147, 31243, 24230, 32], asc ''clay_fineness''),
   ([25530, 26434, 29289], asc ''mixed_materials''),
   ([30828, 24230], asc ''hardness''),
   ([39068, 33394], asc ''color''),
   ([34920, 38754, 22788, 29702], asc ''surface_treatment''),
   ([22522, 26412, 22120, 22411], asc ''basic_shape''),
   ([22120, 22411, 37096, 20301, 29305, 24449], asc ''shape_features''),
   ([22120, 29289, 32452, 21512], asc ''vessel_combination''),
   ([22522, 26412, 23610, 23544], asc ''dimensions''),
   ([22120, 29289, 21151, 33021], asc ''function''),
   ([25104, 22411, 24037, 33402], asc ''forming_technique''),
   ([20462, 25972, 25216, 26415], asc ''finishing_technique''),
   ([35013, 39280, 25163, 27861], asc ''decoration_method''),
   ([32441, 39280, 31867, 22411], asc ''decoration_type''),
   ([28903, 25104, 28201, 24230], asc ''firing_temperature''),
   ([20154, 24037, 29289, 21697, 32534, 21495], asc ''artifact_code''),
   ([21046, 20316, 27963, 21160], asc ''production_activity''),
   ([21046, 20316, 32773], asc ''maker''),
   ([21046, 20316, 24180, 20195], asc ''production_date''),
   ([21046, 20316, 22320, 28857], asc ''production_location''),
   ([21407, 22987, 20986, 22303, 22320, 28857], asc ''excavation_location''),
   ([21457, 25496, 27963, 21160], asc ''excavation_activity''),
   ([20986, 22303, 22675, 33900], asc ''found_in_tomb''),
   ([20445, 23384, 29366, 20917], asc ''preservation_status''),
   ([23436, 25972, 31243, 24230], asc ''completeness''),
   ([39640, 24230], asc ''height''),
   ([22120, 39640], asc ''height''),
   ([36890, 39640], asc ''height''),
   ([21475, 24452], asc ''diameter''),
   ([30452, 24452], asc ''diameter''),
   ([33145, 24452], asc ''diameter''),
   ([24213, 24452], asc ''diameter''),
   ([21402, 24230], asc ''thickness''),
   ([22721, 21402], asc ''thickness''),
   ([22120, 22721, 21402, 24230], asc ''thickness''),
   ([37327, 24230, 20449, 24687], asc ''measurements''),
   ([25152, 22312, 22675, 22320], asc ''location_site''),
   ([25152, 22312, 36951, 22336], asc ''location_site''),
   ([22675, 33900, 32534, 21495], asc ''found_in_tomb''),
   ([23618, 20301], asc ''location_layer''),
   ([23618, 20301, 20449, 24687], asc ''location_layer''),
   ([20854, 20182, 21333, 20301], asc ''location_unit''),
   ([28784, 22353, 32534, 21495], asc ''location_unit''),
   ([20986, 22303, 21306, 22495], asc ''ex_region''),
   ([20986, 22303, 21333, 20301], asc ''ex_unit''),
   ([20986, 22303, 23618, 20301], asc ''ex_layer''),
   ([20154, 24037, 29289, 21697, 32534, 21495], asc ''artifact_code''),
   ([19968, 32423, 20998, 31867], asc ''category_level1''),
   ([20108, 32423, 20998, 31867], asc ''category_level2''),
   ([19977, 32423, 20998, 31867], asc ''category_level3''),
   ([22120, 22411, 21333, 20803], asc ''shape_unit''),
   ([24418, 29366, 25551, 36848], asc ''shape_description''),
   ([25972, 20307, 24418, 24577, 25551, 36848], asc ''overall_description''),
   ([32441, 39280, 21333, 20803], asc ''decoration_unit''),
   ([32441, 39280, 21333, 20803, 40, 25353, 22270, 26696, 39064, 26448, 20998, 31867, 41], asc ''decoration_unit''),
   ([32441, 39280, 20027, 39064], asc ''decoration_theme''),
   ([32441, 39280, 25551, 36848], asc ''decoration_description''),
   ([24037, 33402, 29305, 24449, 21333, 20803], asc ''craft_unit''),
   ([24037, 33402, 29305, 24449, 21333, 20803, 40, 25353, 21046, 20316, 30165, 36857, 20998, 31867, 41], asc ''craft_unit''),
   ([20999, 21106, 24037, 33402], asc ''cutting_technique''),
   ([38075, 23380, 24037, 33402], asc ''drilling_technique''),
   ([38613, 21051, 24037, 33402], asc ''carving_technique''),
   ([35013, 39280, 24037, 33402], asc ''decoration_craft''),
   ([26448, 36136, 21333, 20803], asc ''jade_type''),
   ([29577, 26009, 31867, 22411], asc ''jade_type''),
   ([29577, 26009, 36136, 22320], asc ''jade_quality''),
   ([29577, 26009, 39068, 33394], asc ''jade_color''),
   ([36879, 26126, 24230], asc ''transparency''),
   ([27777, 33394, 21333, 20803], asc ''surface_condition''),
   ([37327, 24230, 20449, 24687], asc ''measurements''),
   ([23610, 23544], asc ''dimensions''),
   ([38271, 24230], asc ''length''),
   ([38271], asc ''length''),
   ([36890, 38271], asc ''length''),
   ([23485, 24230], asc ''width''),
   ([23485], asc ''width''),
   ([21402, 24230], asc ''thickness''),
   ([21402], asc ''thickness''),
   ([23380, 24452], asc ''hole_diameter''),
   ([37325, 37327], asc ''weight''),
   ([22120, 29289, 21151, 33021], asc ''function''),
   ([20351, 29992, 26041, 24335], asc ''usage''),
   ([21046, 20316, 24037, 33402], asc ''production_technique''),
   ([21046, 20316, 24180, 20195], asc ''production_period''),
   ([21407, 22987, 20986, 22303, 22320, 28857], asc ''excavation_location''),
   ([20986, 22303, 22675, 33900], asc ''found_in_tomb''),
   ([20445, 23384, 29366, 20917], asc ''preservation_status''),
   ([23436, 25972, 31243, 24230], asc ''completeness''),
   ([34920, 38754, 29366, 20917], asc ''surface_condition''),
   ([20986, 22303, 21306, 22495], asc ''ex_region''),
   ([20986, 22303, 21333, 20301], asc ''ex_unit''),
   ([20986, 22303, 23618, 20301], asc ''ex_layer''),
   ([36951, 22336, 32534, 21495], asc ''site_code''),
   ([36951, 22336, 21517, 31216], asc ''site_name''),
   ([36951, 22336, 21035, 21517], asc ''site_alias''),
   ([36951, 22336, 31867, 22411], asc ''site_type''),
   ([22320, 29702, 20301, 32622], asc ''current_location''),
   ([29616, 23384, 22320, 28857], asc ''current_location''),
   ([36951, 22336, 20301, 32622], asc ''current_location''),
   ([36951, 22336, 24403, 21069, 20301, 32622], asc ''current_location''),
   ([25152, 22312, 22320], asc ''current_location''),
   ([22320, 29702, 22352, 26631], asc ''geographic_coordinates''),
   ([20301, 32622, 22320, 29702, 25968, 25454], asc ''geographic_coordinates''),
   ([36951, 22336, 31354, 38388, 25968, 25454], asc ''spatial_data''),
   ([28023, 25300], asc ''elevation''),
   ([36951, 22336, 38754, 31215], asc ''total_area''),
   ([24635, 38754, 31215], asc ''total_area''),
   ([21457, 25496, 38754, 31215], asc ''excavated_area''),
   ([25991, 21270, 23646, 24615], asc ''culture_name''),
   ([25152, 23646, 25991, 21270], asc ''culture_name''),
   ([25152, 23646, 24180, 20195], asc ''absolute_dating''),
   ([32477, 23545, 24180, 20195], asc ''absolute_dating''),
   ([20445, 25252, 32423, 21035], asc ''protection_level''),
   ([20445, 23384, 29366, 20917], asc ''preservation_status''),
   ([33258, 28982, 29615, 22659], asc ''description''),
   ([36951, 22336, 25551, 36848], asc ''description''),
   ([36951, 22336, 20869, 23376, 21306, 22495], asc ''site_sub_zone''),
   ([23376, 21306, 22495, 32534, 21495, 25110, 21517, 31216], asc ''sub_zone_name''),
   ([23376, 21306, 22495, 20301, 32622, 25551, 36848], asc ''sub_zone_location''),
   ([23376, 21306, 22495, 20869, 20855, 20307, 21333, 20301], asc ''sub_zone_unit''),
   ([25152, 23646, 23376, 21306, 22495], asc ''parent_sub_zone''),
   ([26102, 26399, 32534, 21495], asc ''period_code''),
   ([26102, 26399, 21517, 31216], asc ''period_name''),
   ([26102, 26399, 47, 26399, 21035], asc ''period_name''),
   ([26102, 26399, 21035, 21517], asc ''period_alias''),
   ([36215, 22987, 26102, 38388], asc ''time_span_start''),
   ([32467, 26463, 26102, 38388], asc ''time_span_end''),
   ([32477, 23545, 24180, 20195], asc ''absolute_dating''),
   ([30456, 23545, 24180, 20195], asc ''relative_dating''),
   ([21457, 23637, 38454, 27573], asc ''development_stage''),
   ([38454, 27573, 24207, 21015], asc ''phase_sequence''),
   ([26102, 26399, 39034, 24207], asc ''phase_sequence''),
   ([26102, 26399, 29305, 24449], asc ''characteristics''),
   ([20195, 34920, 24615, 25991, 29289], asc ''representative_artifacts''),
   ([21382, 21490, 32972, 26223, 26397, 20195], asc ''historical_era''),
   ([32454, 20998, 26102, 26399, 21010, 20998], asc ''sub_period''),
   ([29289, 29702, 22320, 23618, 24402, 23646], asc ''stratigraphic_layer'')]"

definition mapping_lookup :: "ustr \<Rightarrow> ustr option" where
  "mapping_lookup chinese_name = map_of (rev field_name_mapping) chinese_name"

text \<open>
  \<open>re.sub(r'[^\w\s]', '', chinese_name)\<close> keeps the word characters and the white space;
  \<open>.strip().lower().replace(' ', '_')\<close> follows. The fallback for an empty or all-digit
  result is \<open>f"field_{abs(hash(chinese_name)) % 10000}"\<close>, with the built-in \<open>hash\<close>.
\<close>

definition slug :: "pyenv \<Rightarrow> ustr \<Rightarrow> ustr" where
  "slug E chinese_name =
     map (\<lambda>c. if c = SPACE then UNDERSCORE else c)
       (lower E (strip (filter (\<lambda>c. isalnum E c \<or> c = UNDERSCORE \<or> py_isspace c) chinese_name)))"

definition to_db_field_name :: "pyenv \<Rightarrow> ustr \<Rightarrow> ustr" where
  "to_db_field_name E chinese_name =
     (case mapping_lookup chinese_name of
        Some db_name \<Rightarrow> db_name
      | None \<Rightarrow>
          (let field_name = slug E chinese_name
           in if field_name = [] \<or> list_all (isdigit E) field_name
              then asc ''field_'' @ str_of_int (\<bar>hash E chinese_name\<bar> mod 10000)
              else field_name))"

text \<open>
  The value of \<open>hash('123')\<close> in two CPython 3.11 processes (64 bit), one started with
  \<open>PYTHONHASHSEED=1\<close> and one with \<open>PYTHONHASHSEED=2\<close>; without the variable the salt is
  drawn at random when the process starts. No other string is hashed in the example.
\<close>

definition hash_seed_1 :: "ustr \<Rightarrow> int" where
  "hash_seed_1 s = (if s = asc ''123'' then 2322596916611965022 else 0)"

definition hash_seed_2 :: "ustr \<Rightarrow> int" where
  "hash_seed_2 s = (if s = asc ''123'' then - 5826230832210951857 else 0)"

section \<open>Artifact merger: \<open>ArtifactMerger\<close>\<close>

definition ARTIFACT_CODE :: ustr where "ARTIFACT_CODE = asc ''artifact_code''"

text \<open>The separator \<open>' | '\<close> and the keywords that mark a descriptive field: three English
  words and three Chinese ones (U+7279 U+5F81, U+63CF U+8FF0, U+8BF4 U+660E).\<close>

definition BAR_SEP :: ustr where "BAR_SEP = asc '' | ''"

definition DESCRIPTIVE_KEYWORDS :: "ustr list" where
  "DESCRIPTIVE_KEYWORDS =
     [asc ''description'', asc ''features'', asc ''characteristics'',
      [29305, 24449], [25551, 36848], [35828, 26126]]"

text \<open>
  The grouping loop \<open>grouped[key].append(artifact)\<close> over a \<open>defaultdict(list)\<close>: records
  whose key is missing or false are skipped; a key that is a list or a dictionary cannot
  be hashed and raises. Dictionary keys are found by \<open>==\<close>, and a new key goes to the end.
\<close>

fun hashable :: "pyval \<Rightarrow> bool" where
  "hashable (PList xs) = False"
| "hashable (PDict kvs) = False"
| "hashable _ = True"

fun group_add :: "pyval \<Rightarrow> pydict \<Rightarrow> (pyval \<times> pydict list) list \<Rightarrow> (pyval \<times> pydict list) list" where
  "group_add key artifact [] = [(key, [artifact])]"
| "group_add key artifact ((k, g) # rest) =
     (if py_eq k key then (k, g @ [artifact]) # rest
      else (k, g) # group_add key artifact rest)"

fun group_by_key ::
  "ustr \<Rightarrow> pydict list \<Rightarrow> (pyval \<times> pydict list) list \<Rightarrow> exn + (pyval \<times> pydict list) list" where
  "group_by_key key_field [] grouped = Inr grouped"
| "group_by_key key_field (artifact # rest) grouped =
     (let key = dget artifact key_field
      in if truthy key then
           (if hashable key then group_by_key key_field rest (group_add key artifact grouped)
            else Inl (TypeError (asc ''unhashable type: '' @ [QUOTE] @ type_name key @ [QUOTE])))
         else group_by_key key_field rest grouped)"

text \<open>
  \<open>all_fields\<close> is a set of strings in the source: the order in which it is iterated is
  not specified. The model takes the keys in the order \<open>remdups\<close> leaves them; what is
  proved about a merged record is stated through \<open>dget\<close>, which does not depend on that
  order.
\<close>

definition all_fields :: "pydict list \<Rightarrow> ustr list" where
  "all_fields grp = remdups (concat (map (map fst) grp))"

text \<open>The values of a field that are not \<open>None\<close>, in group order.\<close>

definition field_values :: "pydict list \<Rightarrow> ustr \<Rightarrow> pyval list" where
  "field_values grp field = filter (\<lambda>v. v \<noteq> PNone) (map (\<lambda>artifact. dget artifact field) grp)"

text \<open>\<open>_merge_field_values\<close>. The deduplication loop keeps the first of equal values.\<close>

definition unique_values :: "pyval list \<Rightarrow> pyval list" where
  "unique_values vs = foldl (\<lambda>u v. if py_in v u then u else u @ [v]) [] vs"

text \<open>\<open>max(values)\<close> and \<open>max(values, key=len)\<close> return the first maximal element.\<close>

definition num_val :: "pyval \<Rightarrow> rat" where
  "num_val v = (case num_of v of Some r \<Rightarrow> r | None \<Rightarrow> 0)"

definition py_max_num :: "pyval list \<Rightarrow> pyval" where
  "py_max_num vs = foldl (\<lambda>m v. if num_val m < num_val v then v else m) (hd vs) (tl vs)"

definition str_val :: "pyval \<Rightarrow> ustr" where
  "str_val v = (case v of PStr s \<Rightarrow> s | _ \<Rightarrow> [])"

definition py_max_len :: "pyval list \<Rightarrow> pyval" where
  "py_max_len vs =
     foldl (\<lambda>m v. if length (str_val m) < length (str_val v) then v else m) (hd vs) (tl vs)"

definition merge_field_values :: "pyenv \<Rightarrow> ustr \<Rightarrow> pyval list \<Rightarrow> pyval" where
  "merge_field_values E field_name vs =
     (let uniq = unique_values vs
      in if length uniq = 1 then hd uniq
         else if list_all (\<lambda>v. num_of v \<noteq> None) uniq then py_max_num uniq
         else if list_all is_str uniq then
           (if list_ex (\<lambda>keyword. sublist keyword (lower E field_name)) DESCRIPTIVE_KEYWORDS
            then PStr (join BAR_SEP (map str_val uniq))
            else py_max_len uniq)
         else PStr (join BAR_SEP (map (py_str E) uniq)))"

text \<open>\<open>_merge_group\<close>.\<close>

definition merge_group :: "pyenv \<Rightarrow> pydict list \<Rightarrow> pydict" where
  "merge_group E grp =
     map (\<lambda>field.
            let vs = field_values grp field
            in (field,
                if vs = [] then PNone
                else if length vs = 1 then hd vs
                else merge_field_values E field vs))
         (all_fields grp)"

text \<open>\<open>merge_artifacts\<close>.\<close>

definition merge_artifacts :: "pyenv \<Rightarrow> pydict list \<Rightarrow> ustr \<Rightarrow> exn + pydict list" where
  "merge_artifacts E artifact_list key_field =
     (if artifact_list = [] then Inr []
      else case group_by_key key_field artifact_list [] of
             Inl e \<Rightarrow> Inl e
           | Inr grouped \<Rightarrow>
               Inr (map (\<lambda>(key, grp). if length grp = 1 then hd grp else merge_group E grp)
                      grouped))"

text \<open>
  \<open>_detect_group_conflicts\<close> and \<open>detect_conflicts\<close>. A conflict report is the dictionary
  \<open>{'field': ..., 'values': ..., 'count': ...}\<close> the source builds; \<open>set(str(v) ...)\<close> has
  more than one element exactly when \<open>remdups\<close> of the strings has.
\<close>

definition detect_group_conflicts :: "pyenv \<Rightarrow> pydict list \<Rightarrow> pyval list" where
  "detect_group_conflicts E grp =
     concat (map (\<lambda>field.
                    let vs = field_values grp field
                    in if length vs > 1 \<and> length (remdups (map (py_str E) vs)) > 1
                       then [PDict [(asc ''field'', PStr field),
                                    (asc ''values'', PList vs),
                                    (asc ''count'', PInt (int (length vs)))]]
                       else [])
                 (all_fields grp))"

definition detect_conflicts :: "pyenv \<Rightarrow> pydict list \<Rightarrow> ustr \<Rightarrow> exn + pyval list" where
  "detect_conflicts E artifact_list key_field =
     (case group_by_key key_field artifact_list [] of
        Inl e \<Rightarrow> Inl e
      | Inr grouped \<Rightarrow>
          Inr (concat (map (\<lambda>(key, grp).
                              if length grp > 1 \<and> detect_group_conflicts E grp \<noteq> []
                              then [PDict [(asc ''artifact_code'', key),
                                           (asc ''conflicts'', PList (detect_group_conflicts E grp))]]
                              else [])
                           grouped)))"

text \<open>
  The two extractions of the same artifact with colours U+7EA2 and U+7EA2 U+8910, the
  merge-conflict scenario of the specification.
\<close>

definition COLOR :: ustr where "COLOR = asc ''color''"
definition RED :: ustr where "RED = [32418]"
definition RED_BROWN :: ustr where "RED_BROWN = [32418, 35088]"

definition two_reds :: "pydict list" where
  "two_reds =
     [[(ARTIFACT_CODE, PStr (asc ''M12:1'')), (COLOR, PStr RED)],
      [(ARTIFACT_CODE, PStr (asc ''M12:1'')), (COLOR, PStr RED_BROWN)]]"

section \<open>Triple generator: \<open>ExtractionWorkflow._generate_triples\<close>\<close>

text \<open>
  A row of \<open>sys_template_mappings\<close> as the query returns it:
  \<open>(field_name_cn, field_name_en, id, cidoc_property)\<close>; the text columns may be \<open>NULL\<close>.
\<close>

type_synonym mapping_row = "pyval \<times> pyval \<times> int \<times> pyval"

text \<open>\<open>clean_string(s)\<close> is \<open>re.sub(r'\s+', '', str(s)).lower()\<close>.\<close>

definition clean_string :: "pyenv \<Rightarrow> pyval \<Rightarrow> ustr" where
  "clean_string E s = lower E (filter (\<lambda>c. \<not> py_isspace c) (py_str E s))"

text \<open>The lookup table \<open>map_lookup\<close>, filled row by row; a later row replaces an entry.\<close>

fun lookup_add :: "pyenv \<Rightarrow> (ustr \<times> int \<times> pyval) list \<Rightarrow> mapping_row \<Rightarrow> (ustr \<times> int \<times> pyval) list" where
  "lookup_add E map_lookup (name_cn, name_en, mid, prop) =
     (let m1 = (if truthy name_cn then AList.update (clean_string E name_cn) (mid, prop) map_lookup
                else map_lookup)
      in if truthy name_en then AList.update (clean_string E name_en) (mid, prop) m1 else m1)"

definition build_lookup :: "pyenv \<Rightarrow> mapping_row list \<Rightarrow> (ustr \<times> int \<times> pyval) list" where
  "build_lookup E mappings = foldl (lookup_add E) [] mappings"

text \<open>The dictionary appended to \<open>triples\<close> for one field.\<close>

definition triple_of ::
  "pyenv \<Rightarrow> pydict \<Rightarrow> ustr \<Rightarrow> int \<Rightarrow> int \<Rightarrow> pyval \<Rightarrow> pyval \<Rightarrow> pydict" where
  "triple_of E data artifact_type artifact_id mid prop v =
     [(asc ''artifact_type'', PStr artifact_type),
      (asc ''artifact_id'', PInt artifact_id),
      (asc ''mapping_id'', PInt mid),
      (asc ''predicate'', prop),
      (asc ''object_value'', PStr (py_str E v)),
      (asc ''confidence'', dget_default data (asc ''extraction_confidence'') (PFloat 1))]"

text \<open>
  One round of \<open>for key, value in data.items()\<close>: \<open>if not value: continue\<close>, then the
  lookup of the cleaned key, then \<open>if prop\<close>.
\<close>

definition triples_step ::
  "pyenv \<Rightarrow> (ustr \<times> int \<times> pyval) list \<Rightarrow> pydict \<Rightarrow> ustr \<Rightarrow> int \<Rightarrow> pydict list \<Rightarrow> ustr \<times> pyval
     \<Rightarrow> pydict list" where
  "triples_step E map_lookup data artifact_type artifact_id triples kv =
     (if \<not> truthy (snd kv) then triples
      else case map_of map_lookup (clean_string E (PStr (fst kv))) of
             None \<Rightarrow> triples
           | Some (mid, prop) \<Rightarrow>
               if truthy prop
               then triples @ [triple_of E data artifact_type artifact_id mid prop (snd kv)]
               else triples)"

text \<open>The list \<open>triples\<close> that \<open>_generate_triples\<close> hands to \<open>insert_fact_triples\<close>.\<close>

definition generate_triples :: "pyenv \<Rightarrow> mapping_row list \<Rightarrow> pydict \<Rightarrow> ustr \<Rightarrow> int \<Rightarrow> pydict list" where
  "generate_triples E mappings data artifact_type artifact_id =
     foldl (triples_step E (build_lookup E mappings) data artifact_type artifact_id) [] (data)"

text \<open>
  For the statement, read off the catalogue rows and not off the lookup table: the names
  under which a row can be found (its display name and its storage key, each cleaned,
  a \<open>NULL\<close> or empty one left out), the last row of the catalogue, in the order the query
  returns the rows, that carries a given cleaned key among its names, and whether a
  field of the record has a true value and a last naming row with a non-empty relation.
\<close>

definition row_names :: "pyenv \<Rightarrow> mapping_row \<Rightarrow> ustr list" where
  "row_names E row =
     (case row of (name_cn, name_en, mid, prop) \<Rightarrow>
        (if truthy name_cn then [clean_string E name_cn] else [])
        @ (if truthy name_en then [clean_string E name_en] else []))"

definition last_row_naming :: "pyenv \<Rightarrow> mapping_row list \<Rightarrow> ustr \<Rightarrow> mapping_row option" where
  "last_row_naming E mappings k =
     (let rows = filter (\<lambda>row. k \<in> set (row_names E row)) mappings
      in if rows = [] then None else Some (last rows))"

definition yields_triple :: "pyenv \<Rightarrow> mapping_row list \<Rightarrow> ustr \<times> pyval \<Rightarrow> bool" where
  "yields_triple E mappings kv =
     (truthy (snd kv)
      \<and> (case last_row_naming E mappings (clean_string E (PStr (fst kv))) of
           None \<Rightarrow> False
         | Some (name_cn, name_en, mid, prop) \<Rightarrow> truthy prop))"

text \<open>An example catalogue (hardness U+786C U+5EA6, colour U+989C U+8272) and a record with
  hardness 0, an empty colour and a clay type.\<close>

definition example_mappings :: "mapping_row list" where
  "example_mappings =
     [(PStr [30828, 24230], PStr (asc ''hardness''), 7, PStr (asc ''P43_has_dimension'')),
      (PStr [39068, 33394], PStr (asc ''color''), 8, PStr (asc ''P56_bears_feature'')),
      (PStr [38518, 22303, 31181, 31867], PStr (asc ''clay_type''), 9, PStr (asc ''P45_consists_of''))]"

definition record_with_zero :: pydict where
  "record_with_zero =
     [(asc ''hardness'', PInt 0), (asc ''color'', PStr []), (asc ''Clay_Type '', PStr (asc ''sandy''))]"

text \<open>Two catalogue rows with the same storage key \<open>diameter\<close> (rim diameter U+53E3 U+5F84 with
  a relation, belly diameter U+8179 U+5F84 without one), and a record with that key.\<close>

definition rim_then_belly :: "mapping_row list" where
  "rim_then_belly =
     [(PStr [21475, 24452], PStr (asc ''diameter''), 1, PStr (asc ''P43_has_dimension'')),
      (PStr [33145, 24452], PStr (asc ''diameter''), 2, PStr [])]"

definition record_with_diameter :: pydict where
  "record_with_diameter = [(asc ''diameter'', PInt 12)]"
section \<open>Code-range expander: \<open>ExtractionWorkflow._expand_artifact_ranges\<close>\<close>

definition TILDE :: nat where "TILDE = 126"

text \<open>The separators of \<open>complex_indicators\<close>: U+3001, a comma, U+FF0C, U+548C, U+81F3
  and \<open>&\<close>.\<close>

definition COMPLEX_INDICATORS :: "nat list" where
  "COMPLEX_INDICATORS = [12289, 44, 65292, 21644, 33267, 38]"

text \<open>
  \<open>code\<close> as the loop computes it: the empty string for a missing or null
  \<open>artifact_code\<close>, \<open>str(code).strip()\<close> otherwise.
\<close>

definition code_of :: "pyenv \<Rightarrow> pydict \<Rightarrow> ustr" where
  "code_of E artifact =
     (case dget artifact ARTIFACT_CODE of
        PNone \<Rightarrow> []
      | code \<Rightarrow> strip (py_str E code))"

text \<open>
  The digits at the end of a string. \<open>re.search(r'^(.*?)(\d+)$', s)\<close> on a stripped
  string succeeds when \<open>s\<close> ends in a digit and no newline stands before the final run of
  digits (\<open>.\<close> does not match a newline); group 2 is that whole run, since the first
  group is lazy. \<open>re.search(r'(\d+)$', s)\<close> finds the same run as its group 1.
\<close>

definition trailing_digits :: "pyenv \<Rightarrow> ustr \<Rightarrow> ustr" where
  "trailing_digits E s = rev (takeWhile (isdecimal E) (rev s))"

text \<open>
  The parse of the rule layer: exactly two parts around \<open>~\<close>, a start part
  \<open>prefix + digits\<close> and an end part that ends in digits. The result is
  \<open>(code_prefix, start_num, end_num)\<close>; \<open>None\<close> covers every failed match and the exception
  that \<open>except Exception: pass\<close> swallows.
\<close>

definition parsed_range :: "pyenv \<Rightarrow> ustr \<Rightarrow> (ustr \<times> nat \<times> nat) option" where
  "parsed_range E code =
     (if TILDE \<in> set code then
        (case split_on TILDE code of
           [p0, p1] \<Rightarrow>
             (let start_full = strip p0;
                  end_full = strip p1;
                  start_digits = trailing_digits E start_full;
                  code_prefix = take (length start_full - length start_digits) start_full;
                  end_digits = trailing_digits E end_full
              in if start_digits = [] \<or> NEWLINE \<in> set code_prefix then None
                 else (case py_int E start_digits of
                         None \<Rightarrow> None
                       | Some start_num \<Rightarrow>
                           if end_digits = [] then None
                           else (case py_int E end_digits of
                                   None \<Rightarrow> None
                                 | Some end_num \<Rightarrow> Some (code_prefix, start_num, end_num))))
         | _ \<Rightarrow> None)
      else None)"

text \<open>The rule layer: the codes of the range when it is accepted (\<open>is_expanded = True\<close>).\<close>

definition rule_expand :: "pyenv \<Rightarrow> ustr \<Rightarrow> ustr list option" where
  "rule_expand E code =
     (case parsed_range E code of
        None \<Rightarrow> None
      | Some (code_prefix, start_num, end_num) \<Rightarrow>
          if start_num < end_num \<and> end_num - start_num < 100
          then Some (map (\<lambda>i. code_prefix @ digits_of i) [start_num ..< end_num + 1])
          else None)"

text \<open>
  \<open>_expand_code_with_llm\<close>. The parameter \<open>ask\<close> stands for the language model and the
  response normalizer together: \<open>ask code\<close> is what
  \<open>extract_json_from_response(call_llm_api(prompt, config))\<close> returns or raises for the
  prompt built around \<open>code\<close>. A list answer is filtered to its true items, each turned
  into a string; every other answer and every exception gives the empty list.
\<close>

definition expand_code_with_llm :: "pyenv \<Rightarrow> (ustr \<Rightarrow> exn + pyval) \<Rightarrow> ustr \<Rightarrow> ustr list" where
  "expand_code_with_llm E ask code =
     (case ask code of
        Inl e \<Rightarrow> []
      | Inr result \<Rightarrow>
          (case result of
             PList items \<Rightarrow> map (py_str E) (filter truthy items)
           | _ \<Rightarrow> []))"

text \<open>\<open>artifact.copy()\<close> with \<open>artifact_code\<close> rewritten.\<close>

definition with_code :: "pydict \<Rightarrow> ustr \<Rightarrow> pydict" where
  "with_code artifact new_code = AList.update ARTIFACT_CODE (PStr new_code) artifact"

text \<open>One round of the loop over the artifacts: what it appends to \<open>expanded\<close>.\<close>

definition expand_one :: "pyenv \<Rightarrow> (ustr \<Rightarrow> exn + pyval) \<Rightarrow> pydict \<Rightarrow> pydict list" where
  "expand_one E ask artifact =
     (let code = code_of E artifact
      in case rule_expand E code of
           Some codes \<Rightarrow> map (with_code artifact) codes
         | None \<Rightarrow>
             if list_ex (\<lambda>ch. ch \<in> set code) COMPLEX_INDICATORS \<or> TILDE \<in> set code
             then (let expanded_codes = expand_code_with_llm E ask code
                   in if expanded_codes \<noteq> [] then map (with_code artifact) expanded_codes
                      else [artifact])
             else [artifact])"

definition expand_artifact_ranges :: "pyenv \<Rightarrow> (ustr \<Rightarrow> exn + pyval) \<Rightarrow> pydict list \<Rightarrow> pydict list" where
  "expand_artifact_ranges E ask artifacts = concat (map (expand_one E ask) artifacts)"

text \<open>
  Examples: an artifact with the descending range \<open>M7:5~3\<close>, a language model that is
  unreachable, and one that answers with three explicit codes.
\<close>

definition descending_range :: pydict where
  "descending_range = [(ARTIFACT_CODE, PStr (asc ''M7:5~3'')), (COLOR, PStr RED)]"

definition llm_down :: "ustr \<Rightarrow> exn + pyval" where
  "llm_down code = Inl (OtherError (asc ''connection refused''))"

definition llm_three_codes :: "ustr \<Rightarrow> exn + pyval" where
  "llm_three_codes code = Inr (PList [PStr (asc ''M7:3''), PStr (asc ''M7:4''), PStr (asc ''M7:5'')])"

section \<open>Image manager and image linker\<close>

subsection \<open>The content list\<close>

text \<open>
  An entry of the content list, with the fields the linker reads typed as the
  content-list documents have them: \<open>type\<close> a string (empty when the key is absent),
  \<open>text\<close> a string when present; the remaining entries (\<open>image_hash\<close>, \<open>hash\<close>, \<open>id\<close>,
  \<open>path\<close>, \<open>page_idx\<close>, \<open>bbox\<close>) are kept as the JSON object has them. A missing or empty
  content list is the empty list.
\<close>

record content_item =
  itype :: ustr
  itext :: "ustr option"
  ifields :: pydict

definition IMAGE :: ustr where "IMAGE = asc ''image''"
definition TEXT :: ustr where "TEXT = asc ''text''"

text \<open>\<open>item.get('text', '')\<close>.\<close>

definition text_of :: "content_item \<Rightarrow> ustr" where
  "text_of item = (case itext item of Some s \<Rightarrow> s | None \<Rightarrow> [])"

text \<open>
  \<open>os.path.basename\<close> and the root of \<open>os.path.splitext\<close> (POSIX): the part after the last
  slash; and, for a name without a slash, the part before its last dot when some
  character other than a dot stands before that dot.
\<close>

definition SLASH :: nat where "SLASH = 47"
definition BACKSLASH :: nat where "BACKSLASH = 92"
definition DOT :: nat where "DOT = 46"

definition basename :: "ustr \<Rightarrow> ustr" where
  "basename p = rev (takeWhile (\<lambda>c. c \<noteq> SLASH) (rev p))"

definition splitext_root :: "ustr \<Rightarrow> ustr" where
  "splitext_root name =
     (case rfind name DOT 0 (length name) of
        None \<Rightarrow> name
      | Some dot_index \<Rightarrow>
          if list_ex (\<lambda>c. c \<noteq> DOT) (take dot_index name) then take dot_index name else name)"

text \<open>\<open>ImageManager._extract_hash_from_item\<close>: the first of the four fields that holds a
  string decides.\<close>

fun extract_hash_fields :: "pydict \<Rightarrow> ustr list \<Rightarrow> ustr option" where
  "extract_hash_fields d [] = None"
| "extract_hash_fields d (field # others) =
     (case map_of d field of
        Some (PStr v) \<Rightarrow>
          Some (if SLASH \<in> set v \<or> BACKSLASH \<in> set v then splitext_root (basename v) else v)
      | _ \<Rightarrow> extract_hash_fields d others)"

definition extract_hash_from_item :: "content_item \<Rightarrow> ustr option" where
  "extract_hash_from_item item =
     extract_hash_fields (ifields item) [asc ''image_hash'', asc ''hash'', asc ''id'', asc ''path'']"

text \<open>\<open>content_list.index(item)\<close>, for an item of the list: the first equal entry.\<close>

definition index_of :: "'a \<Rightarrow> 'a list \<Rightarrow> nat" where
  "index_of x xs = length (takeWhile (\<lambda>y. y \<noteq> x) xs)"

text \<open>\<open>ImageManager._extract_nearby_text\<close>: the non-empty texts within \<open>distance\<close> entries,
  joined by spaces and cut to 500 characters.\<close>

definition extract_nearby_text :: "content_item list \<Rightarrow> content_item \<Rightarrow> nat \<Rightarrow> ustr" where
  "extract_nearby_text content_list image_item distance =
     (if content_list = [] then []
      else let idx = index_of image_item content_list
           in take 500
                (join [SPACE]
                   (map text_of
                      (filter (\<lambda>item. itype item = TEXT \<and> text_of item \<noteq> [])
                         (slice content_list (idx - distance) (idx + distance + 1))))))"

text \<open>U+56FE, the first character of a figure caption, and U+56FE U+7248.\<close>

definition CN_TU :: ustr where "CN_TU = [22270]"
definition CN_TUBAN :: ustr where "CN_TUBAN = [22270, 29256]"

text \<open>
  \<open>ImageManager.extract_image_caption\<close>: at the first image entry with the given hash,
  the first of the next four entries that is a text starting like a caption; failing
  that, the nearby text. The hash may be \<open>None\<close>, as \<open>_extract_hash_from_item\<close> returns it.
\<close>

definition caption_like :: "content_item \<Rightarrow> bool" where
  "caption_like item \<longleftrightarrow>
     itype item = TEXT \<and> strip (text_of item) \<noteq> [] \<and>
     (prefix CN_TU (strip (text_of item)) \<or> prefix (asc ''Fig'') (strip (text_of item))
      \<or> prefix CN_TUBAN (strip (text_of item)))"

definition extract_image_caption :: "content_item list \<Rightarrow> ustr option \<Rightarrow> ustr" where
  "extract_image_caption content_list image_hash =
     (case filter (\<lambda>i. itype (content_list ! i) = IMAGE
                        \<and> extract_hash_from_item (content_list ! i) = image_hash)
             [0 ..< length content_list] of
        [] \<Rightarrow> []
      | i # _ \<Rightarrow>
          (case filter caption_like (slice content_list (i + 1) (i + 5)) of
             next_item # _ \<Rightarrow> strip (text_of next_item)
           | [] \<Rightarrow> extract_nearby_text content_list (content_list ! i) 2))"

subsection \<open>Candidates\<close>

text \<open>
  A candidate image as a strategy builds it. \<open>distance_from_text\<close> is only set by the
  proximity strategies. Confidences are the decimal numbers of the source, taken
  exactly; in \<open>0.6 + match_count * 0.1\<close> the double computed by Python differs from the
  rational number here by less than \<open>10\<^sup>-\<^sup>1\<^sup>5\<close>.
\<close>

record candidate =
  cand_hash :: "ustr option"
  cand_page_idx :: pyval
  cand_bbox :: pyval
  cand_caption :: ustr
  cand_distance :: "nat option"
  cand_confidence :: rat
  cand_method :: ustr

definition PAGE_IDX :: ustr where "PAGE_IDX = asc ''page_idx''"
definition BBOX :: ustr where "BBOX = asc ''bbox''"

text \<open>
  \<open>_find_nearby_images\<close>, with the confidence and the method the calling strategy assigns
  to each image it returns.
\<close>

definition find_nearby_images ::
  "content_item list \<Rightarrow> nat \<Rightarrow> nat \<Rightarrow> rat \<Rightarrow> ustr \<Rightarrow> candidate list" where
  "find_nearby_images content_list text_index distance conf method =
     concat (map (\<lambda>i. let item = content_list ! i
                       in if itype item = IMAGE then
                            (case extract_hash_from_item item of
                               None \<Rightarrow> []
                             | Some image_hash \<Rightarrow>
                                 if image_hash = [] then []
                                 else [\<lparr> cand_hash = Some image_hash,
                                         cand_page_idx = dget (ifields item) PAGE_IDX,
                                         cand_bbox = dget_default (ifields item) BBOX (PList []),
                                         cand_caption = extract_image_caption content_list (Some image_hash),
                                         cand_distance = Some (if i < text_index then text_index - i
                                                               else i - text_index),
                                         cand_confidence = conf,
                                         cand_method = method \<rparr>])
                          else [])
                 [text_index - distance ..< min (length content_list) (text_index + distance + 1)])"

text \<open>The indices of the text entries that satisfy a test on their text.\<close>

definition text_indices :: "content_item list \<Rightarrow> (ustr \<Rightarrow> bool) \<Rightarrow> nat list" where
  "text_indices content_list P =
     filter (\<lambda>i. itype (content_list ! i) = TEXT \<and> P (text_of (content_list ! i)))
       [0 ..< length content_list]"

subsection \<open>Strategy: artifact-code proximity\<close>

text \<open>\<open>_normalize_code\<close>: white space, hyphens and underscores removed, the full-width
  colon U+FF1A replaced by a colon.\<close>

definition normalize_code :: "ustr \<Rightarrow> ustr" where
  "normalize_code s =
     map (\<lambda>c. if c = 65306 then 58 else c)
       (filter (\<lambda>c. \<not> (py_isspace c \<or> c = 45 \<or> c = 95)) s)"

definition find_images_by_artifact_code :: "content_item list \<Rightarrow> ustr \<Rightarrow> candidate list" where
  "find_images_by_artifact_code content_list artifact_code =
     concat (map (\<lambda>i. find_nearby_images content_list i 5 (9 / 10) (asc ''artifact_code''))
               (text_indices content_list
                  (\<lambda>t. sublist artifact_code t
                        \<or> sublist (normalize_code artifact_code) (normalize_code t))))"

subsection \<open>Strategy: keyword proximity\<close>

definition KEY_FIELDS :: "ustr list" where
  "KEY_FIELDS =
     [asc ''subtype'', asc ''category_level1'', asc ''category_level2'', asc ''jade_type'',
      asc ''clay_type'', asc ''shape_unit'', asc ''decoration_unit'']"

text \<open>\<open>_extract_keywords\<close>, for an artifact whose code is the string \<open>artifact_code\<close>.\<close>

definition extract_keywords :: "pydict \<Rightarrow> ustr \<Rightarrow> ustr list" where
  "extract_keywords artifact artifact_code =
     concat (map (\<lambda>field. case dget artifact field of
                             PStr v \<Rightarrow> if length v > 1 then [v] else []
                           | _ \<Rightarrow> [])
               KEY_FIELDS)
     @ (if artifact_code \<noteq> [] then [artifact_code] else [])"

definition match_count :: "ustr list \<Rightarrow> ustr \<Rightarrow> nat" where
  "match_count keywords t = length (filter (\<lambda>kw. sublist kw t) keywords)"

definition find_images_by_text_content ::
  "content_item list \<Rightarrow> pydict \<Rightarrow> ustr \<Rightarrow> candidate list" where
  "find_images_by_text_content content_list artifact artifact_code =
     (let keywords = extract_keywords artifact artifact_code
      in if keywords = [] then []
         else concat (map (\<lambda>i. find_nearby_images content_list i 3
                                   (6 / 10 + of_nat (match_count keywords (text_of (content_list ! i))) * (1 / 10))
                                   (asc ''text_content''))
                        (text_indices content_list (\<lambda>t. match_count keywords t \<ge> 2))))"

subsection \<open>Strategy: tomb context\<close>

text \<open>\<open>_extract_tomb_code\<close>: \<open>re.match(r'(M\d+)', artifact_code)\<close>.\<close>

definition extract_tomb_code :: "pyenv \<Rightarrow> ustr \<Rightarrow> ustr option" where
  "extract_tomb_code E artifact_code =
     (case artifact_code of
        [] \<Rightarrow> None
      | c # r \<Rightarrow>
          if c = LETTER_M \<and> takeWhile (isdecimal E) r \<noteq> []
          then Some (LETTER_M # takeWhile (isdecimal E) r)
          else None)"

definition find_images_by_tomb :: "pyenv \<Rightarrow> content_item list \<Rightarrow> ustr \<Rightarrow> candidate list" where
  "find_images_by_tomb E content_list artifact_code =
     (case extract_tomb_code E artifact_code of
        None \<Rightarrow> []
      | Some tomb_code \<Rightarrow>
          concat (map (\<lambda>i. find_nearby_images content_list i 10 (4 / 10) (asc ''tomb_context''))
                    (text_indices content_list
                       (\<lambda>t. sublist tomb_code t
                             \<and> (sublist [22675] t \<or> sublist MU_ZANG t \<or> sublist [LETTER_M] t)))))"

subsection \<open>Strategy: explicit references in the text\<close>

text \<open>
  \<open>re.findall(r'(...|...|Fig\.?|Figure)\s*([...\d]+)', text)\<close> with the two Chinese
  prefixes U+56FE and U+56FE U+7248 first. At a position the alternatives are tried in
  the order of the pattern, \<open>Fig\.?\<close> with the dot before without it; after the prefix
  white space is skipped and the longest run of numerals and decimal digits is taken,
  which must not be empty (no white-space character is a decimal digit, so giving white
  space back cannot help). The search goes on after a match, and one character further
  where there is none.
\<close>

definition REF_PREFIXES :: "ustr list" where
  "REF_PREFIXES = [CN_TU, CN_TUBAN, asc ''Fig.'', asc ''Fig'', asc ''Figure'']"

definition is_ref_digit :: "pyenv \<Rightarrow> nat \<Rightarrow> bool" where
  "is_ref_digit E c \<longleftrightarrow> c \<in> set CN_NUMERALS \<or> isdecimal E c"

definition ref_number_after :: "pyenv \<Rightarrow> ustr \<Rightarrow> ustr \<Rightarrow> ustr" where
  "ref_number_after E p s = takeWhile (is_ref_digit E) (dropWhile py_isspace (drop (length p) s))"

definition match_ref_here :: "pyenv \<Rightarrow> ustr \<Rightarrow> (ustr \<times> ustr \<times> ustr) option" where
  "match_ref_here E s =
     (case List.find (\<lambda>p. prefix p s \<and> ref_number_after E p s \<noteq> []) REF_PREFIXES of
        None \<Rightarrow> None
      | Some p \<Rightarrow>
          Some (p, ref_number_after E p s,
                dropWhile (is_ref_digit E) (dropWhile py_isspace (drop (length p) s))))"

lemma match_ref_here_shorter:
  assumes "match_ref_here E s = Some (p, num, rest)"
  shows "length rest < length s"
proof -
  from assms obtain q where q: "List.find (\<lambda>p. prefix p s \<and> ref_number_after E p s \<noteq> []) REF_PREFIXES = Some q"
    and r: "rest = dropWhile (is_ref_digit E) (dropWhile py_isspace (drop (length q) s))"
    by (auto simp: match_ref_here_def split: option.splits)
  from q have "q \<in> set REF_PREFIXES" "prefix q s"
    by (auto simp: find_Some_iff)
  then have "q \<noteq> []" "length q \<le> length s"
    by (auto simp: REF_PREFIXES_def CN_TU_def CN_TUBAN_def asc_def prefix_length_le)
  then have "length (drop (length q) s) < length s"
    by (cases s) auto
  moreover have "length rest \<le> length (drop (length q) s)"
    unfolding r
    by (meson length_dropWhile_le order_trans)
  ultimately show ?thesis by simp
qed

function find_refs :: "pyenv \<Rightarrow> ustr \<Rightarrow> (ustr \<times> ustr) list" where
  "find_refs E [] = []"
| "find_refs E (c # s) =
     (case match_ref_here E (c # s) of
        Some (p, num, rest) \<Rightarrow> (p, num) # find_refs E rest
      | None \<Rightarrow> find_refs E s)"
  by pat_completeness auto
termination
  by (relation "measure (\<lambda>(E, s). length s)") (auto dest: match_ref_here_shorter)

text \<open>The references found for an artifact: for every match the prefix with the number,
  and the number alone. (A set in the source; only membership is used.)\<close>

definition found_refs :: "pyenv \<Rightarrow> content_item list \<Rightarrow> ustr \<Rightarrow> ustr list" where
  "found_refs E content_list artifact_code =
     concat (map (\<lambda>i. concat (map (\<lambda>(p, num). [p @ num, num])
                                  (find_refs E (text_of (content_list ! i)))))
               (text_indices content_list (\<lambda>t. sublist artifact_code t)))"

text \<open>The test of both reference strategies: the reference occurs in the image's hash, or
  its caption starts with the reference or holds it between spaces.\<close>

definition ref_matches :: "ustr \<Rightarrow> ustr option \<Rightarrow> ustr \<Rightarrow> bool" where
  "ref_matches ref image_hash caption \<longleftrightarrow>
     (case image_hash of Some h \<Rightarrow> h \<noteq> [] \<and> sublist ref h | None \<Rightarrow> False)
     \<or> (caption \<noteq> [] \<and> (prefix ref caption \<or> sublist ([SPACE] @ ref @ [SPACE]) caption))"

definition reference_candidate :: "content_item list \<Rightarrow> content_item \<Rightarrow> rat \<Rightarrow> ustr \<Rightarrow> candidate" where
  "reference_candidate content_list item conf method =
     \<lparr> cand_hash = extract_hash_from_item item,
       cand_page_idx = dget (ifields item) PAGE_IDX,
       cand_bbox = dget_default (ifields item) BBOX (PList []),
       cand_caption = extract_image_caption content_list (extract_hash_from_item item),
       cand_distance = None,
       cand_confidence = conf,
       cand_method = method \<rparr>"

definition find_images_by_explicit_reference ::
  "pyenv \<Rightarrow> content_item list \<Rightarrow> ustr \<Rightarrow> candidate list" where
  "find_images_by_explicit_reference E content_list artifact_code =
     (let refs = found_refs E content_list artifact_code
      in if refs = [] then []
         else map (\<lambda>item. reference_candidate content_list item (95 / 100) (asc ''explicit_reference''))
                (filter (\<lambda>item. itype item = IMAGE
                                 \<and> list_ex (\<lambda>ref. ref_matches ref (extract_hash_from_item item)
                                                     (extract_image_caption content_list
                                                        (extract_hash_from_item item)))
                                      refs)
                   content_list))"

subsection \<open>Strategy: references declared by the language model\<close>

definition IMAGE_REFERENCES :: ustr where "IMAGE_REFERENCES = asc ''image_references''"

definition find_images_by_llm_references ::
  "pyenv \<Rightarrow> content_item list \<Rightarrow> pydict \<Rightarrow> candidate list" where
  "find_images_by_llm_references E content_list artifact =
     (case dget_default artifact IMAGE_REFERENCES (PList []) of
        PList refs \<Rightarrow>
          concat (map (\<lambda>ref.
                         let ref_str = strip (py_str E ref)
                         in if ref_str = [] then []
                            else map (\<lambda>item. reference_candidate content_list item (98 / 100)
                                                (asc ''llm_reference''))
                                   (filter (\<lambda>item. itype item = IMAGE
                                                    \<and> ref_matches ref_str (extract_hash_from_item item)
                                                         (extract_image_caption content_list
                                                            (extract_hash_from_item item)))
                                      content_list))
                    refs)
      | _ \<Rightarrow> [])"

subsection \<open>Merging, roles and the linker\<close>

text \<open>\<open>_merge_and_deduplicate\<close>: the first candidate of every non-empty hash, then a stable
  sort by falling confidence and rising distance (999 where there is none).\<close>

fun dedupe :: "candidate list \<Rightarrow> ustr list \<Rightarrow> candidate list" where
  "dedupe [] seen = []"
| "dedupe (c # cs) seen =
     (case cand_hash c of
        None \<Rightarrow> dedupe cs seen
      | Some h \<Rightarrow>
          if h \<noteq> [] \<and> h \<notin> set seen then c # dedupe cs (h # seen) else dedupe cs seen)"

definition sort_rank :: "candidate \<Rightarrow> rat \<times> nat" where
  "sort_rank c = (- cand_confidence c, case cand_distance c of Some d \<Rightarrow> d | None \<Rightarrow> 999)"

definition merge_and_deduplicate :: "candidate list list \<Rightarrow> candidate list" where
  "merge_and_deduplicate image_lists = sort_key sort_rank (dedupe (concat image_lists) [])"

text \<open>\<open>_determine_image_role\<close>; the Chinese cues are U+7167 U+7247, U+56FE, U+7EBF U+56FE,
  U+793A U+610F, U+4F4D U+7F6E and U+5893.\<close>

definition determine_image_role :: "pyenv \<Rightarrow> candidate \<Rightarrow> nat \<Rightarrow> ustr" where
  "determine_image_role E img index =
     (let caption = lower E (cand_caption img);
          match_method = cand_method img
      in if sublist [29031, 29255] caption \<or> sublist (asc ''photo'') caption then asc ''photo''
         else if sublist [22270] caption \<or> sublist [32447, 22270] caption
                 \<or> sublist (asc ''drawing'') caption then asc ''drawing''
         else if sublist [31034, 24847] caption \<or> sublist (asc ''diagram'') caption then asc ''diagram''
         else if sublist [20301, 32622] caption \<or> sublist (asc ''context'') caption
                 \<or> sublist [22675] caption then asc ''context''
         else if match_method = asc ''llm_reference'' \<or> match_method = asc ''explicit_reference''
              then asc ''photo''
         else if match_method = asc ''artifact_code''
              then (if index = 0 then asc ''photo'' else asc ''drawing'')
         else if match_method = asc ''tomb_context'' then asc ''context''
         else (if index = 0 then asc ''photo'' else asc ''related''))"

record linked_image =
  image_hash :: ustr
  image_path :: ustr
  image_role :: ustr
  confidence :: rat
  display_order :: nat
  page_idx :: pyval
  caption :: ustr

text \<open>
  \<open>link_artifact_to_images\<close>. A code that is true but no string makes the first
  strategy that uses it raise: \<open>artifact_code in text\<close> at the first text entry, or else
  \<open>re.match\<close> in \<open>_extract_tomb_code\<close>.
\<close>

definition all_candidates :: "pyenv \<Rightarrow> content_item list \<Rightarrow> pydict \<Rightarrow> ustr \<Rightarrow> candidate list" where
  "all_candidates E content_list artifact artifact_code =
     merge_and_deduplicate
       [find_images_by_llm_references E content_list artifact,
        find_images_by_explicit_reference E content_list artifact_code,
        find_images_by_artifact_code content_list artifact_code,
        find_images_by_text_content content_list artifact artifact_code,
        find_images_by_tomb E content_list artifact_code]"

definition link_artifact_to_images ::
  "pyenv \<Rightarrow> content_item list \<Rightarrow> pydict \<Rightarrow> ustr \<Rightarrow> exn + linked_image list" where
  "link_artifact_to_images E content_list artifact artifact_type =
     (let artifact_code = dget_default artifact ARTIFACT_CODE (PStr [])
      in if \<not> truthy artifact_code then Inr []
         else (case artifact_code of
                 PStr code \<Rightarrow>
                   Inr (map (\<lambda>(i, img).
                               \<lparr> image_hash = (case cand_hash img of Some h \<Rightarrow> h | None \<Rightarrow> []),
                                 image_path = [],
                                 image_role = determine_image_role E img i,
                                 confidence = cand_confidence img,
                                 display_order = i,
                                 page_idx = cand_page_idx img,
                                 caption = cand_caption img \<rparr>)
                          (enumerate 0 (all_candidates E content_list artifact code)))
               | _ \<Rightarrow>
                   if list_ex (\<lambda>item. itype item = TEXT) content_list
                   then Inl (TypeError ([QUOTE] @ asc ''in <string>'' @ [QUOTE]
                                        @ asc '' requires string as left operand, not ''
                                        @ type_name artifact_code))
                   else Inl (TypeError (asc ''expected string or bytes-like object, got ''
                                        @ [QUOTE] @ type_name artifact_code @ [QUOTE]))))"

subsection \<open>Examples\<close>

text \<open>
  A content list with one image, followed by its caption (U+56FE U+4E00 and a
  description), and an artifact without \<open>artifact_code\<close> that cites the figure.
\<close>

definition FIGURE_ONE :: ustr where "FIGURE_ONE = [22270, 19968]"

definition captioned_image :: "content_item list" where
  "captioned_image =
     [\<lparr> itype = IMAGE, itext = None,
        ifields = [(asc ''image_hash'', PStr (asc ''img_a'')), (PAGE_IDX, PInt 3)] \<rparr>,
      \<lparr> itype = TEXT, itext = Some (FIGURE_ONE @ asc '' jade cong''),
        ifields = [(PAGE_IDX, PInt 3)] \<rparr>]"

definition artifact_without_code :: pydict where
  "artifact_without_code =
     [(asc ''subtype'', PStr (asc ''cong'')), (IMAGE_REFERENCES, PList [PStr FIGURE_ONE])]"

text \<open>
  An artifact with five descriptive fields, and a content list whose only text names all
  five (and not the artifact's code) next to an image.
\<close>

definition artifact_five_keywords :: pydict where
  "artifact_five_keywords =
     [(ARTIFACT_CODE, PStr (asc ''M12:1'')),
      (asc ''subtype'', PStr (asc ''cong'')),
      (asc ''category_level1'', PStr (asc ''ritual jade'')),
      (asc ''category_level2'', PStr (asc ''tube'')),
      (asc ''jade_type'', PStr (asc ''nephrite'')),
      (asc ''shape_unit'', PStr (asc ''square''))]"

definition page_with_five_keywords :: "content_item list" where
  "page_with_five_keywords =
     [\<lparr> itype = TEXT,
        itext = Some (asc ''A nephrite cong: a square tube, classed as ritual jade.''),
        ifields = [(PAGE_IDX, PInt 7)] \<rparr>,
      \<lparr> itype = IMAGE, itext = None,
        ifields = [(asc ''image_hash'', PStr (asc ''img_b'')), (PAGE_IDX, PInt 7)] \<rparr>]"

section \<open>Response normalizer: \<open>automated_extractor.extract_json_from_response\<close>\<close>


















section \<open>Workflow orchestrator: \<open>ExtractionWorkflow\<close>\<close>

subsection \<open>The task's persistent state\<close>

text \<open>
  What one task reads and writes outside its own memory: the status column of its row
  in \<open>extraction_tasks\<close>, its rows in \<open>extraction_logs\<close> (level and message, oldest first)
  and the files under \<open>logs/failed_responses\<close> (name and content). The last two fields
  are the local variables \<open>all_artifacts\<close> and \<open>response\<close> of \<open>_extract_artifacts\<close>;
  \<open>response\<close> is unbound (\<open>None\<close>) until the first call of the language model returns and
  keeps its value from one round of the chunk loop to the next.
\<close>

record wf =
  task_status :: ustr
  task_logs :: "(ustr \<times> ustr) list"
  recovery_files :: "(ustr \<times> ustr) list"
  all_artifacts :: "pydict list"
  response_var :: "ustr option"

definition PENDING :: ustr where "PENDING = asc ''pending''"
definition RUNNING :: ustr where "RUNNING = asc ''running''"
definition COMPLETED :: ustr where "COMPLETED = asc ''completed''"
definition FAILED :: ustr where "FAILED = asc ''failed''"
definition ABORTED :: ustr where "ABORTED = asc ''aborted''"

definition INFO :: ustr where "INFO = asc ''INFO''"
definition WARNING :: ustr where "WARNING = asc ''WARNING''"
definition ERROR :: ustr where "ERROR = asc ''ERROR''"

text \<open>\<open>db.add_log\<close> and \<open>db.update_task_status\<close>.\<close>

definition add_log :: "ustr \<Rightarrow> ustr \<Rightarrow> wf \<Rightarrow> wf" where
  "add_log level message s = s\<lparr>task_logs := task_logs s @ [(level, message)]\<rparr>"

definition update_task_status :: "ustr \<Rightarrow> wf \<Rightarrow> wf" where
  "update_task_status new_status s = s\<lparr>task_status := new_status\<rparr>"

text \<open>A step of the workflow returns the state it leaves and the exception it raised, if
  any.\<close>

type_synonym step = "wf \<Rightarrow> exn option \<times> wf"

fun run_steps :: "step list \<Rightarrow> wf \<Rightarrow> exn option \<times> wf" where
  "run_steps [] s = (None, s)"
| "run_steps (f # fs) s =
     (case f s of
        (Some e, s') \<Rightarrow> (Some e, s')
      | (None, s') \<Rightarrow> run_steps fs s')"

definition total :: "(wf \<Rightarrow> wf) \<Rightarrow> step" where
  "total f s = (None, f s)"

subsection \<open>Cancellation: \<open>_check_cancellation\<close> and \<open>execute_full_extraction\<close>\<close>

text \<open>The two texts of \<open>_check_cancellation\<close>: the warning it logs and the message of the
  exception it raises.\<close>

definition LOG_CANCEL :: ustr where
  "LOG_CANCEL = [26816, 27979, 21040, 20013, 27490, 20449, 21495, 65292, 27491, 22312, 20572, 27490, 20219, 21153, 46, 46, 46]"

definition MSG_CANCELLED :: ustr where
  "MSG_CANCELLED = [20219, 21153, 24050, 30001, 29992, 25143, 25163, 21160, 20013, 27490]"

definition check_cancellation :: step where
  "check_cancellation s =
     (if task_status s = ABORTED
      then (Some (Exception MSG_CANCELLED), add_log WARNING LOG_CANCEL s)
      else (None, s))"

text \<open>The literal log texts of \<open>execute_full_extraction\<close>.\<close>

definition LOG_START :: ustr where
  "LOG_START = [24320, 22987, 25277, 21462, 27969, 31243]"

definition LOG_REGISTER :: ustr where
  "LOG_REGISTER = [27880, 20876, 27169, 29256, 26144, 23556, 46, 46, 46]"

definition LOG_FAILED_PREFIX :: ustr where
  "LOG_FAILED_PREFIX = [25277, 21462, 22833, 36133, 58, 32]"

definition LOG_DETAIL_PREFIX :: ustr where
  "LOG_DETAIL_PREFIX = [38169, 35823, 35814, 24773, 58, 32]"

definition LOG_DONE :: ustr where
  "LOG_DONE = [25277, 21462, 27969, 31243, 23436, 25104]"

text \<open>
  The phases between the checkpoints are parameters: what registering one template,
  indexing the images and extracting sites, periods, pottery and jade do to the state,
  with the log entries they write. A phase runs while the dashboard may write \<open>aborted\<close>
  into the status column, so the state a phase leaves may carry that status; the
  artifact phases hold checkpoints of their own (before every tomb block and every
  chunk) and then end with the exception of \<open>_check_cancellation\<close>. Registering a
  template catches its own exceptions. \<open>period_wanted\<close> is the test \<open>'period' in templates
  and site_id\<close>, the other two are \<open>'pottery' in templates\<close> and \<open>'jade' in templates\<close>.
\<close>

record phases =
  register_template :: "(wf \<Rightarrow> wf) list"
  index_images :: step
  extract_site :: step
  period_wanted :: bool
  extract_periods :: step
  pottery_wanted :: bool
  extract_pottery :: step
  jade_wanted :: bool
  extract_jade :: step
  update_statistics :: "wf \<Rightarrow> wf"

text \<open>The body of the \<open>try\<close> statement.\<close>

definition try_body :: "phases \<Rightarrow> step list" where
  "try_body P =
     [total (update_task_status RUNNING), check_cancellation, total (add_log INFO LOG_REGISTER)]
     @ concat (map (\<lambda>r. [check_cancellation, total r]) (register_template P))
     @ [check_cancellation, index_images P,
        check_cancellation, extract_site P]
     @ (if period_wanted P then [check_cancellation, extract_periods P] else [])
     @ (if pottery_wanted P then [check_cancellation, extract_pottery P] else [])
     @ (if jade_wanted P then [check_cancellation, extract_jade P] else [])
     @ [total (update_statistics P), total (update_task_status COMPLETED),
        total (add_log INFO LOG_DONE)]"

text \<open>
  The handler \<open>except Exception as e\<close>: an error entry with the message, status \<open>failed\<close>,
  an error entry with the first 500 characters of the traceback, and the exception is
  raised again. \<open>format_exc\<close> is \<open>traceback.format_exc()\<close>.
\<close>

definition on_exception :: "(exn \<Rightarrow> ustr) \<Rightarrow> exn \<Rightarrow> wf \<Rightarrow> wf" where
  "on_exception format_exc e s =
     add_log ERROR (LOG_DETAIL_PREFIX @ take 500 (format_exc e))
       (update_task_status FAILED
          (add_log ERROR (LOG_FAILED_PREFIX @ exn_msg e) s))"

definition execute_full_extraction :: "phases \<Rightarrow> (exn \<Rightarrow> ustr) \<Rightarrow> wf \<Rightarrow> exn option \<times> wf" where
  "execute_full_extraction P format_exc s =
     (case run_steps (try_body P) (add_log INFO LOG_START s) of
        (None, s') \<Rightarrow> (None, s')
      | (Some e, s') \<Rightarrow> (Some e, on_exception format_exc e s'))"

text \<open>
  An example run: a pending task without templates whose status is set to \<open>aborted\<close>
  from the dashboard while the images are indexed; every other phase does nothing.
\<close>

definition pending_task :: wf where
  "pending_task =
     \<lparr> task_status = PENDING, task_logs = [], recovery_files = [], all_artifacts = [],
       response_var = None \<rparr>"

definition abort_during_indexing :: phases where
  "abort_during_indexing =
     \<lparr> register_template = [],
       index_images = (\<lambda>s. (None, update_task_status ABORTED s)),
       extract_site = (\<lambda>s. (None, s)),
       period_wanted = False,
       extract_periods = (\<lambda>s. (None, s)),
       pottery_wanted = False,
       extract_pottery = (\<lambda>s. (None, s)),
       jade_wanted = False,
       extract_jade = (\<lambda>s. (None, s)),
       update_statistics = (\<lambda>s. s) \<rparr>"

definition example_traceback :: "exn \<Rightarrow> ustr" where
  "example_traceback e = asc ''Traceback (most recent call last): ...''"

subsection \<open>One chunk of \<open>_extract_artifacts\<close>\<close>























subsection \<open>The period call-site: step 4 and \<open>_extract_periods\<close>\<close>



section \<open>Properties of the chunker\<close>

lemma rfind_Some:
  assumes "rfind xs c lo hi = Some k"
  shows "lo \<le> k \<and> k < hi \<and> k < length xs \<and> xs ! k = c"
proof -
  obtain ks where "filter (\<lambda>k. xs ! k = c) (rev [lo ..< min hi (length xs)]) = k # ks"
    using assms by (auto simp: rfind_def split: list.splits)
  then have "k \<in> set (filter (\<lambda>k. xs ! k = c) (rev [lo ..< min hi (length xs)]))"
    by simp
  then show ?thesis by auto
qed

lemma actual_end_le: "actual_end t cs ov start \<le> start + cs"
  by (auto simp: actual_end_def Let_def split: option.splits dest!: rfind_Some)

lemma actual_end_ge:
  "start + cs - ov < actual_end t cs ov start \<or> actual_end t cs ov start = start + cs"
  by (auto simp: actual_end_def Let_def split: option.splits dest!: rfind_Some)

lemma actual_end_overlap:
  assumes "0 < ov" "2 * ov \<le> cs"
  shows "start + ov < actual_end t cs ov start"
  using actual_end_ge [of start cs ov t] assms by auto

text \<open>Every round that finds text left emits a chunk that starts at \<open>start\<close>.\<close>

lemma split_loop_head:
  assumes "0 < ov" "2 * ov \<le> cs" "start < length t"
  shows "\<exists>c rest. split_loop t cs ov start = c # rest \<and> take ov c = take ov (drop start t)"
proof (cases "start + cs \<ge> length t")
  case True
  with assms show ?thesis by (subst split_loop.simps) simp
next
  case False
  have "start + ov < actual_end t cs ov start"
    using assms by (simp add: actual_end_overlap)
  then have "take ov (slice t start (actual_end t cs ov start)) = take ov (drop start t)"
    by (simp add: slice_def min_def)
  with False assms show ?thesis by (subst split_loop.simps) simp
qed

lemma split_loop_overlap:
  assumes "0 < ov" "2 * ov \<le> cs"
  shows "successively (\<lambda>c c'. take ov c' = drop (length c - ov) c) (split_loop t cs ov start)"
  using assms
proof (induction t cs ov start rule: split_loop.induct)
  case (1 t cs ov start)
  note IH = "1.IH" and prems = "1.prems"
  show ?case
  proof (cases "start < length t \<and> start + cs < length t")
    case False
    then show ?thesis by (subst split_loop.simps) auto
  next
    case True
    let ?e = "actual_end t cs ov start"
    have e1: "start + ov < ?e" using prems by (simp add: actual_end_overlap)
    have e2: "?e \<le> start + cs" by (rule actual_end_le)
    have nxt: "max (start + 1) (?e - ov) = ?e - ov" using e1 by auto
    have lt: "?e - ov < length t" using e2 True by auto
    obtain c' rest where r: "split_loop t cs ov (?e - ov) = c' # rest"
      and h: "take ov c' = take ov (drop (?e - ov) t)"
      using split_loop_head [OF prems lt] by blast
    have len: "length (slice t start ?e) = ?e - start"
      using e2 True by (auto simp: slice_def)
    have "drop (?e - start - ov) (slice t start ?e) = take ov (drop (?e - ov) t)"
      using e1 by (simp add: slice_def drop_take)
    with h len have P: "take ov c' = drop (length (slice t start ?e) - ov) (slice t start ?e)"
      by simp
    have "successively (\<lambda>c c'. take ov c' = drop (length c - ov) c) (c' # rest)"
      using IH [OF _ _ prems] True nxt r by simp
    with P True nxt r show ?thesis
      by (subst split_loop.simps) simp
  qed
qed

text \<open>
  C6, as the code has it. The overlap is kept after every cut, whether it fell after a
  newline, after a full stop or was a hard cut: the next round always starts at
  \<open>max(start + 1, actual_end - overlap)\<close>. For \<open>0 < overlap\<close> and
  \<open>2 * overlap \<le> chunk_size\<close> (the defaults 2000/200 and the caller's 3000/300) every
  chunk after the first therefore begins with the last \<open>overlap\<close> characters of the
  chunk before it.
\<close>

theorem split_large_text_overlap_kept:
  assumes "0 < overlap" "2 * overlap \<le> chunk_size"
  shows "successively (\<lambda>c c'. take overlap c' = drop (length c - overlap) c)
           (split_large_text t chunk_size overlap)"
  using split_loop_overlap [OF assms] by (simp add: split_large_text_def)

theorem split_large_text_overlap_kept_witness:
  "(0::nat) < 2 \<and> 2 * 2 \<le> (5::nat) \<and>
   successively (\<lambda>c c'. take 2 c' = drop (length c - 2) c)
     (split_large_text (asc ''abcd'' @ [NEWLINE] @ asc ''fghij'') 5 2)"
  using split_large_text_overlap_kept [of 2 5 "asc ''abcd'' @ [NEWLINE] @ asc ''fghij''"]
  by simp

text \<open>
  C6 as stated fails: in \<open>"abcd\nfghij"\<close> with \<open>chunk_size = 5\<close> and \<open>overlap = 2\<close> the
  first cut is a clean newline cut (the newline at index 4 lies in the window
  \<open>[3, 5)\<close>), and the second chunk still starts two characters before the cut,
  repeating \<open>"d\n"\<close>.
\<close>

theorem split_large_text_newline_cut_overlaps:
  "rfind (asc ''abcd'' @ [NEWLINE] @ asc ''fghij'') NEWLINE 3 5 = Some 4 \<and>
   split_large_text (asc ''abcd'' @ [NEWLINE] @ asc ''fghij'') 5 2
     = [asc ''abcd'' @ [NEWLINE], asc ''d'' @ [NEWLINE] @ asc ''fgh'', asc ''ghij'']"
  by code_simp

section \<open>Properties of the segmenter\<close>

lemma saved_sections_Cons2 [simp]:
  "saved_sections (x # y # ys) = x # saved_sections (y # ys)"
  by (simp add: saved_sections_def)

lemma saved_sections_single [simp]:
  "saved_sections [x] = (if snd x = [] then [] else [x])"
  by (simp add: saved_sections_def)

lemma saved_sections_Nil [simp]: "saved_sections [] = []"
  by (simp add: saved_sections_def)

lemma store_all_Cons [simp]:
  "store_all r (kv # kvs) = store_all (AList.update (fst kv) (snd kv) r) kvs"
  by (simp add: store_all_def)

lemma store_all_Nil [simp]: "store_all r [] = r"
  by (simp add: store_all_def)

lemma tomb_loop_open:
  "tomb_finish (foldl (tomb_step E) (result, Some t, content) ls)
     = store_all result
         (map segment_of (saved_sections ((t, content @ snd (sections E ls)) # fst (sections E ls))))"
proof (induction ls arbitrary: result t content)
  case Nil
  show ?case by (simp add: save_tomb_def segment_of_def)
next
  case (Cons l ls)
  show ?case
  proof (cases "match_heading E l")
    case None
    then show ?thesis using Cons.IH [of result t "content @ [l]"] by simp
  next
    case (Some name)
    then show ?thesis using Cons.IH [of "save_tomb t content result" name "[]"]
      by (simp add: save_tomb_def segment_of_def)
  qed
qed

lemma tomb_loop_closed:
  "tomb_finish (foldl (tomb_step E) (result, None, []) ls)
     = store_all result (map segment_of (saved_sections (fst (sections E ls))))"
proof (induction ls)
  case Nil
  show ?case by simp
next
  case (Cons l ls)
  show ?case
  proof (cases "match_heading E l")
    case None
    then show ?thesis using Cons.IH by simp
  next
    case (Some name)
    then show ?thesis using tomb_loop_open [of E result name "[]" ls] by simp
  qed
qed

lemma split_by_tomb_store_all:
  "split_by_tomb E full_text
     = store_all [] (map segment_of (saved_sections (fst (sections E (split_on NEWLINE full_text)))))"
  by (simp add: split_by_tomb_def tomb_loop_closed)

lemma update_fresh: "k \<notin> fst ` set r \<Longrightarrow> AList.update k v r = r @ [(k, v)]"
  by (induction r) auto

lemma store_all_distinct:
  "distinct (map fst kvs) \<Longrightarrow> fst ` set r \<inter> fst ` set kvs = {} \<Longrightarrow> store_all r kvs = r @ kvs"
proof (induction kvs arbitrary: r)
  case Nil
  then show ?case by simp
next
  case (Cons kv kvs)
  have fresh: "fst kv \<notin> fst ` set r" using Cons.prems(2) by auto
  have "store_all (r @ [kv]) kvs = (r @ [kv]) @ kvs"
    using Cons.prems by (intro Cons.IH) auto
  then show ?case using fresh by (simp add: update_fresh)
qed

lemma fst_segment_of [simp]: "fst (segment_of nb) = fst nb"
  by (simp add: segment_of_def)

lemma squeeze_append [simp]: "squeeze (a @ b) = squeeze a @ squeeze b" by (simp add: squeeze_def)
lemma squeeze_dropWhile [simp]: "squeeze (dropWhile py_isspace s) = squeeze s"
  by (induction s) (auto simp: squeeze_def)
lemma squeeze_rev: "squeeze (rev s) = rev (squeeze s)" by (simp add: squeeze_def rev_filter)
lemma squeeze_strip [simp]: "squeeze (strip s) = squeeze s"
  by (simp add: strip_def squeeze_rev)
lemma squeeze_newline [simp]: "squeeze [NEWLINE] = []"
  by (simp add: squeeze_def NEWLINE_def py_isspace_def)
lemma squeeze_Cons_newline [simp]: "squeeze (NEWLINE # s) = squeeze s"
  by (simp add: squeeze_def NEWLINE_def py_isspace_def)
lemma squeeze_join [simp]: "squeeze (join [NEWLINE] b) = squeeze (concat b)"
  by (induction b rule: induct_list012) simp_all
lemma squeeze_Nil [simp]: "squeeze [] = []" by (simp add: squeeze_def)
lemma squeeze_concat_saved:
  "squeeze (concat (map (snd \<circ> segment_of) (saved_sections secs))) = squeeze (concat (map (concat \<circ> snd) secs))"
proof (induction secs rule: induct_list012)
  case 1 show ?case by simp
next
  case (2 x) show ?case by (simp add: segment_of_def)
next
  case (3 x y zs) then show ?case by (simp add: segment_of_def)
qed

text \<open>
  C5, as the code has it. When the headings that are saved carry pairwise distinct tomb
  names, the segmenter returns one segment per heading, in order of appearance (a last
  heading with no line after it is left out), and the text of a segment is the lines
  between its heading and the next heading, joined by newlines and stripped. Hence the
  concatenation of the segment texts is, up to white space, the text after the first
  heading without the heading lines.
\<close>

theorem split_by_tomb_distinct_names:
  assumes "distinct (map fst (saved_sections (fst (sections E (split_on NEWLINE full_text)))))"
  shows "split_by_tomb E full_text
           = map segment_of (saved_sections (fst (sections E (split_on NEWLINE full_text))))
       \<and> squeeze (concat (map snd (split_by_tomb E full_text)))
           = squeeze (concat (map (concat \<circ> snd) (fst (sections E (split_on NEWLINE full_text)))))"
proof -
  let ?secs = "fst (sections E (split_on NEWLINE full_text))"
  have "distinct (map fst (map segment_of (saved_sections ?secs)))"
    using assms by (simp add: comp_def)
  then have eq: "split_by_tomb E full_text = map segment_of (saved_sections ?secs)"
    using store_all_distinct [of "map segment_of (saved_sections ?secs)" "[]"]
    by (simp add: split_by_tomb_store_all)
  have "squeeze (concat (map snd (map segment_of (saved_sections ?secs))))
          = squeeze (concat (map (concat \<circ> snd) ?secs))"
    using squeeze_concat_saved [of ?secs] by simp
  with eq show ?thesis by simp
qed

theorem split_by_tomb_distinct_names_witness:
  "distinct (map fst (saved_sections
      (fst (sections (basic_env (\<lambda>_. 0)) (split_on NEWLINE report_two_tombs)))))
   \<and> split_by_tomb (basic_env (\<lambda>_. 0)) report_two_tombs
       = [(asc ''M1'', asc ''A''), (asc ''M2'', asc ''B'')]
   \<and> squeeze (concat (map snd (split_by_tomb (basic_env (\<lambda>_. 0)) report_two_tombs)))
       = asc ''AB''"
proof -
  have d: "distinct (map fst (saved_sections
      (fst (sections (basic_env (\<lambda>_. 0)) (split_on NEWLINE report_two_tombs)))))"
    by code_simp
  have e: "map segment_of (saved_sections
      (fst (sections (basic_env (\<lambda>_. 0)) (split_on NEWLINE report_two_tombs))))
     = [(asc ''M1'', asc ''A''), (asc ''M2'', asc ''B'')]"
    by code_simp
  have f: "squeeze (concat (map (concat \<circ> snd)
      (fst (sections (basic_env (\<lambda>_. 0)) (split_on NEWLINE report_two_tombs))))) = asc ''AB''"
    by code_simp
  note r = split_by_tomb_distinct_names [OF d]
  show ?thesis
    using d r [THEN conjunct1, unfolded e] r [THEN conjunct2, unfolded f] by blast
qed

text \<open>
  C5 as stated fails: when a tomb name occurs in two headings, the later segment
  overwrites the earlier one in the dictionary. In the report with the lines \<open>## M1\<close>,
  \<open>A\<close>, \<open>## M1\<close>, \<open>B\<close> the only segment is \<open>B\<close>, and the line \<open>A\<close>, which follows the first
  heading, is in no segment.
\<close>

theorem split_by_tomb_repeated_name_loses_text:
  "split_by_tomb (basic_env (\<lambda>_. 0)) report_repeated_tomb = [(asc ''M1'', asc ''B'')]
   \<and> squeeze (concat (map snd (split_by_tomb (basic_env (\<lambda>_. 0)) report_repeated_tomb)))
       \<noteq> squeeze (concat (map (concat \<circ> snd)
            (fst (sections (basic_env (\<lambda>_. 0)) (split_on NEWLINE report_repeated_tomb)))))"
  by code_simp

section \<open>Properties of the storage-key derivation\<close>

text \<open>
  A name of the table, and a name whose slug is neither empty nor all digits, gets a key
  that does not depend on the process's hash salt.
\<close>

lemma to_db_field_name_salt_free:
  assumes "mapping_lookup n \<noteq> None \<or> (slug E n \<noteq> [] \<and> \<not> list_all (isdigit E) (slug E n))"
  shows "to_db_field_name (E\<lparr>hash := h1\<rparr>) n = to_db_field_name (E\<lparr>hash := h2\<rparr>) n"
  using assms by (auto simp: to_db_field_name_def slug_def Let_def split: option.splits)

text \<open>
  The fallback key is built from the salted hash: two processes give the same key for a
  name that takes the fallback exactly when their hashes of it agree modulo 10000 in
  absolute value.
\<close>

lemma digits_of_less_10: "n < 10 \<Longrightarrow> digits_of n = [48 + n]"
  by (subst digits_of.simps) simp

lemma digits_of_nonempty: "digits_of n \<noteq> []"
  by (subst digits_of.simps) simp

lemma digits_of_step: "digits_of n = digits_of (n div 10) @ [48 + n mod 10] \<or> n < 10"
  by (subst digits_of.simps) simp

lemma digits_of_inj: "digits_of m = digits_of n \<Longrightarrow> m = n"
proof (induction m arbitrary: n rule: digits_of.induct)
  case (1 m)
  show ?case
  proof (cases "m < 10")
    case True
    show ?thesis
    proof (cases "n < 10")
      case True
      with \<open>m < 10\<close> "1.prems" show ?thesis by (simp add: digits_of_less_10)
    next
      case False
      then have "digits_of n = digits_of (n div 10) @ [48 + n mod 10]"
        using digits_of_step [of n] by simp
      with True "1.prems" digits_of_nonempty [of "n div 10"] show ?thesis
        by (simp add: digits_of_less_10)
    qed
  next
    case False
    then have m: "digits_of m = digits_of (m div 10) @ [48 + m mod 10]"
      using digits_of_step [of m] by simp
    show ?thesis
    proof (cases "n < 10")
      case True
      with m "1.prems" digits_of_nonempty [of "m div 10"] show ?thesis
        by (simp add: digits_of_less_10)
    next
      case nf: False
      then have n: "digits_of n = digits_of (n div 10) @ [48 + n mod 10]"
        using digits_of_step [of n] by simp
      from m n "1.prems" have "digits_of (m div 10) = digits_of (n div 10)" "m mod 10 = n mod 10"
        by simp_all
      with "1.IH" [OF False] have "m div 10 = n div 10" "m mod 10 = n mod 10" by simp_all
      then show ?thesis by (metis div_mult_mod_eq)
    qed
  qed
qed

lemma to_db_field_name_fallback:
  assumes "mapping_lookup n = None" "slug E n = [] \<or> list_all (isdigit E) (slug E n)"
  shows "to_db_field_name (E\<lparr>hash := h1\<rparr>) n = to_db_field_name (E\<lparr>hash := h2\<rparr>) n
           \<longleftrightarrow> \<bar>h1 n\<bar> mod 10000 = \<bar>h2 n\<bar> mod 10000"
proof -
  have nn: "0 \<le> \<bar>h1 n\<bar> mod 10000" "0 \<le> \<bar>h2 n\<bar> mod 10000" by simp_all
  have "str_of_int (\<bar>h1 n\<bar> mod 10000) = str_of_int (\<bar>h2 n\<bar> mod 10000)
          \<longleftrightarrow> \<bar>h1 n\<bar> mod 10000 = \<bar>h2 n\<bar> mod 10000"
    using nn digits_of_inj [of "nat (\<bar>h1 n\<bar> mod 10000)" "nat (\<bar>h2 n\<bar> mod 10000)"]
    by (auto simp: str_of_int_def eq_nat_nat_iff)
  then show ?thesis
    using assms by (auto simp: to_db_field_name_def slug_def Let_def)
qed

text \<open>
  C3 at a failing input. The name \<open>123\<close> is not in the table and its slug is all digits,
  so it takes the fallback; the process started with \<open>PYTHONHASHSEED=1\<close> derives
  \<open>field_5022\<close> and the one started with \<open>PYTHONHASHSEED=2\<close> derives \<open>field_1857\<close>.
\<close>

theorem to_db_field_name_differs_between_processes:
  "to_db_field_name (basic_env hash_seed_1) (asc ''123'') = asc ''field_5022''
   \<and> to_db_field_name (basic_env hash_seed_2) (asc ''123'') = asc ''field_1857''"
  by code_simp

section \<open>The merge-conflict scenario\<close>

text \<open>
  C4. On the two extractions of \<open>M12:1\<close> with colours U+7EA2 and U+7EA2 U+8910,
  \<open>detect_conflicts\<close> reports one conflict, on the field \<open>color\<close> with its two values, and
  \<open>merge_artifacts\<close> returns a single record, whose \<open>color\<close> is the longer string (the
  field name holds no descriptive keyword) and whose \<open>artifact_code\<close> is unchanged.
\<close>

theorem merge_conflict_scenario:
  "detect_conflicts (basic_env (\<lambda>_. 0)) two_reds ARTIFACT_CODE
     = Inr [PDict [(asc ''artifact_code'', PStr (asc ''M12:1'')),
                   (asc ''conflicts'',
                    PList [PDict [(asc ''field'', PStr COLOR),
                                  (asc ''values'', PList [PStr RED, PStr RED_BROWN]),
                                  (asc ''count'', PInt 2)]])]]
   \<and> (case merge_artifacts (basic_env (\<lambda>_. 0)) two_reds ARTIFACT_CODE of
         Inr [record] \<Rightarrow>
           dget record COLOR = PStr RED_BROWN \<and> dget record ARTIFACT_CODE = PStr (asc ''M12:1'')
           \<and> set (map fst record) = {ARTIFACT_CODE, COLOR}
       | _ \<Rightarrow> False)"
  by code_simp


section \<open>Properties of the triple generator\<close>

text \<open>The lookup table holds, under a cleaned key, the id and relation of the last
  catalogue row that carries the key among its names.\<close>

lemma map_of_lookup_add:
  "map_of (lookup_add E map_lookup (name_cn, name_en, mid, prop)) k
     = (if k \<in> set (row_names E (name_cn, name_en, mid, prop)) then Some (mid, prop)
        else map_of map_lookup k)"
  by (simp add: row_names_def update_conv' Let_def)

lemma last_row_naming_snoc:
  "last_row_naming E (mappings @ [row]) k
     = (if k \<in> set (row_names E row) then Some row else last_row_naming E mappings k)"
  by (simp add: last_row_naming_def)

lemma map_of_build_lookup:
  "map_of (build_lookup E mappings) k
     = (case last_row_naming E mappings k of
          None \<Rightarrow> None
        | Some (name_cn, name_en, mid, prop) \<Rightarrow> Some (mid, prop))"
proof (induction mappings rule: rev_induct)
  case Nil
  show ?case by (simp add: build_lookup_def last_row_naming_def)
next
  case (snoc row mappings)
  obtain a b c d where row: "row = (a, b, c, d)"
    by (cases row) auto
  have step: "build_lookup E (mappings @ [(a, b, c, d)])
      = lookup_add E (build_lookup E mappings) (a, b, c, d)"
    by (simp add: build_lookup_def del: lookup_add.simps)
  show ?case
    unfolding row step
    by (simp add: map_of_lookup_add last_row_naming_snoc snoc.IH del: lookup_add.simps)
qed

lemma triples_step_rows:
  "triples_step E (build_lookup E mappings) data artifact_type artifact_id triples kv
     = triples @
       (if truthy (snd kv) then
          (case last_row_naming E mappings (clean_string E (PStr (fst kv))) of
             None \<Rightarrow> []
           | Some (name_cn, name_en, mid, prop) \<Rightarrow>
               if truthy prop then [triple_of E data artifact_type artifact_id mid prop (snd kv)]
               else [])
        else [])"
  by (simp add: triples_step_def map_of_build_lookup split: option.splits)

lemma foldl_triples_step_rows:
  "foldl (triples_step E (build_lookup E mappings) data artifact_type artifact_id) triples kvs
     = triples @ concat (map (\<lambda>kv.
         if truthy (snd kv) then
          (case last_row_naming E mappings (clean_string E (PStr (fst kv))) of
             None \<Rightarrow> []
           | Some (name_cn, name_en, mid, prop) \<Rightarrow>
               if truthy prop then [triple_of E data artifact_type artifact_id mid prop (snd kv)]
               else [])
        else []) kvs)"
  by (induction kvs arbitrary: triples) (simp_all add: triples_step_rows)

text \<open>When two rows share a name the later one decides: with the row without a relation
  last the field yields nothing, with the rows the other way round it yields the
  triple of mapping 1.\<close>

lemma generate_triples_later_row_decides:
  "generate_triples (basic_env (\<lambda>_. 0)) rim_then_belly record_with_diameter (asc ''pottery'') 1 = []
   \<and> map (\<lambda>t. dget t (asc ''mapping_id''))
        (generate_triples (basic_env (\<lambda>_. 0)) (rev rim_then_belly) record_with_diameter
           (asc ''pottery'') 1)
       = [PInt 1]"
  by code_simp

text \<open>
  C7, as the code has it. \<open>_generate_triples\<close> emits, in the order of the record's fields,
  exactly one triple for every field whose value passes Python's truth test (so not
  \<open>None\<close>, and not \<open>0\<close>, \<open>0.0\<close>, \<open>False\<close>, the empty string, list or dictionary), whose
  white-space-free lower-cased key is the cleaned display name or storage key of a
  catalogue row, and for which the last such row, in the order the query returns the
  rows, has a non-empty ontology relation; the triple carries the id and the relation
  of that row. Every other field yields no triple.
\<close>

theorem generate_triples_last_naming_row:
  "generate_triples E mappings data artifact_type artifact_id
     = concat (map (\<lambda>kv.
         if truthy (snd kv) then
          (case last_row_naming E mappings (clean_string E (PStr (fst kv))) of
             None \<Rightarrow> []
           | Some (name_cn, name_en, mid, prop) \<Rightarrow>
               if truthy prop then [triple_of E data artifact_type artifact_id mid prop (snd kv)]
               else [])
        else []) data)
   \<and> length (generate_triples E mappings data artifact_type artifact_id)
       = length (filter (yields_triple E mappings) data)"
proof -
  have a: "generate_triples E mappings data artifact_type artifact_id
     = concat (map (\<lambda>kv.
         if truthy (snd kv) then
          (case last_row_naming E mappings (clean_string E (PStr (fst kv))) of
             None \<Rightarrow> []
           | Some (name_cn, name_en, mid, prop) \<Rightarrow>
               if truthy prop then [triple_of E data artifact_type artifact_id mid prop (snd kv)]
               else [])
        else []) data)"
    by (simp add: generate_triples_def foldl_triples_step_rows)
  have "length (concat (map (\<lambda>kv.
         if truthy (snd kv) then
          (case last_row_naming E mappings (clean_string E (PStr (fst kv))) of
             None \<Rightarrow> []
           | Some (name_cn, name_en, mid, prop) \<Rightarrow>
               if truthy prop then [triple_of E data artifact_type artifact_id mid prop (snd kv)]
               else [])
        else []) kvs)) = length (filter (yields_triple E mappings) kvs)" for kvs
    by (induction kvs) (auto simp: yields_triple_def split: option.splits)
  with a show ?thesis by simp
qed

text \<open>
  C7 as stated fails: the fields \<open>hardness = 0\<close> and \<open>color = ''\<close> are not null, their keys
  are in the lookup table with a non-empty relation, and no triple is emitted for them;
  the only triple is the one for the clay type (mapping 9).
\<close>

theorem generate_triples_skips_zero_and_empty:
  "dget record_with_zero (asc ''hardness'') = PInt 0
   \<and> map_of (build_lookup (basic_env (\<lambda>_. 0)) example_mappings)
        (clean_string (basic_env (\<lambda>_. 0)) (PStr (asc ''hardness'')))
       = Some (7, PStr (asc ''P43_has_dimension''))
   \<and> dget record_with_zero (asc ''color'') = PStr []
   \<and> map_of (build_lookup (basic_env (\<lambda>_. 0)) example_mappings)
        (clean_string (basic_env (\<lambda>_. 0)) (PStr (asc ''color'')))
       = Some (8, PStr (asc ''P56_bears_feature''))
   \<and> map (\<lambda>t. dget t (asc ''mapping_id''))
        (generate_triples (basic_env (\<lambda>_. 0)) example_mappings record_with_zero (asc ''pottery'') 1)
       = [PInt 9]"
  by code_simp

section \<open>Properties of the range expander\<close>

text \<open>
  C8, as the code has it. A record whose code parses as a two-part numeric range with
  \<open>end \<le> start\<close> or a span of 100 or more is not expanded by the rule layer; because its
  code contains \<open>~\<close> it is handed to the language-model fallback. When that returns no
  code (an exception, an answer that is no list, a list without true items) the output
  holds the original record unchanged and nothing else for it; when it returns codes,
  the output holds one copy of the record per returned code instead.
\<close>

theorem rejected_range_goes_to_llm:
  assumes "parsed_range E (code_of E artifact) = Some (code_prefix, start_num, end_num)"
      and "end_num \<le> start_num \<or> 100 \<le> end_num - start_num"
  shows "expand_artifact_ranges E ask (before @ artifact # after)
           = expand_artifact_ranges E ask before
             @ (if expand_code_with_llm E ask (code_of E artifact) = [] then [artifact]
                else map (with_code artifact) (expand_code_with_llm E ask (code_of E artifact)))
             @ expand_artifact_ranges E ask after"
proof -
  have t: "TILDE \<in> set (code_of E artifact)"
    using assms(1) by (auto simp: parsed_range_def split: if_splits)
  have "rule_expand E (code_of E artifact) = None"
    using assms by (auto simp: rule_expand_def)
  with t have "expand_one E ask artifact
       = (if expand_code_with_llm E ask (code_of E artifact) = [] then [artifact]
          else map (with_code artifact) (expand_code_with_llm E ask (code_of E artifact)))"
    by (simp add: expand_one_def Let_def)
  then show ?thesis by (simp add: expand_artifact_ranges_def)
qed


theorem rejected_range_goes_to_llm_witness:
  "parsed_range (basic_env (\<lambda>_. 0)) (code_of (basic_env (\<lambda>_. 0)) descending_range)
     = Some (asc ''M7:'', 5, 3)
   \<and> ((3::nat) \<le> 5 \<or> (100::nat) \<le> 3 - 5)
   \<and> expand_artifact_ranges (basic_env (\<lambda>_. 0)) llm_down [descending_range]
       = [descending_range]"
proof -
  have p: "parsed_range (basic_env (\<lambda>_. 0)) (code_of (basic_env (\<lambda>_. 0)) descending_range)
     = Some (asc ''M7:'', 5, 3)"
    by code_simp
  have q: "(3::nat) \<le> 5 \<or> (100::nat) \<le> 3 - 5" by simp
  have e: "expand_code_with_llm (basic_env (\<lambda>_. 0)) llm_down
             (code_of (basic_env (\<lambda>_. 0)) descending_range) = []"
    by (simp add: expand_code_with_llm_def llm_down_def)
  have "expand_artifact_ranges (basic_env (\<lambda>_. 0)) llm_down ([] @ descending_range # [])
          = [descending_range]"
    using rejected_range_goes_to_llm [OF p q, of llm_down "[]" "[]"] e
    by (simp add: expand_artifact_ranges_def)
  with p q show ?thesis by simp
qed

text \<open>
  C8 as stated fails: the range \<open>M7:5~3\<close> has \<open>end \<le> start\<close>, and when the language model
  answers with three codes the output holds three rewritten copies and not the original
  record.
\<close>

theorem rejected_range_expanded_by_llm:
  "parsed_range (basic_env (\<lambda>_. 0)) (code_of (basic_env (\<lambda>_. 0)) descending_range)
     = Some (asc ''M7:'', 5, 3)
   \<and> expand_artifact_ranges (basic_env (\<lambda>_. 0)) llm_three_codes [descending_range]
       = [with_code descending_range (asc ''M7:3''), with_code descending_range (asc ''M7:4''),
          with_code descending_range (asc ''M7:5'')]
   \<and> descending_range
       \<notin> set (expand_artifact_ranges (basic_env (\<lambda>_. 0)) llm_three_codes [descending_range])"
  by code_simp

section \<open>Properties of the image linker\<close>

text \<open>
  C10. When the artifact's \<open>artifact_code\<close> is missing, null or the empty string, the
  linker returns the empty list, whatever the content list and whatever else the
  artifact holds: no strategy runs.
\<close>

theorem link_without_code_is_empty:
  assumes "map_of artifact ARTIFACT_CODE \<in> {None, Some PNone, Some (PStr [])}"
  shows "link_artifact_to_images E content_list artifact artifact_type = Inr []"
  using assms by (auto simp: link_artifact_to_images_def dget_default_def)

text \<open>
  The artifact of the example has no code but cites figure one, and the content list
  holds an image whose caption starts with that reference: the strategy of declared
  references alone would return the image with confidence 0.98, the linker returns
  nothing.
\<close>

theorem link_without_code_is_empty_witness:
  "map_of artifact_without_code ARTIFACT_CODE \<in> {None, Some PNone, Some (PStr [])}
   \<and> map (\<lambda>c. (cand_hash c, cand_confidence c))
        (find_images_by_llm_references (basic_env (\<lambda>_. 0)) captioned_image artifact_without_code)
       = [(Some (asc ''img_a''), 98 / 100)]
   \<and> link_artifact_to_images (basic_env (\<lambda>_. 0)) captioned_image artifact_without_code (asc ''jade'')
       = Inr []"
proof -
  have a: "map_of artifact_without_code ARTIFACT_CODE \<in> {None, Some PNone, Some (PStr [])}"
    by code_simp
  have b: "map (\<lambda>c. (cand_hash c, cand_confidence c))
        (find_images_by_llm_references (basic_env (\<lambda>_. 0)) captioned_image artifact_without_code)
       = [(Some (asc ''img_a''), 98 / 100)]"
    by code_simp
  show ?thesis
    using a b link_without_code_is_empty [OF a, of "basic_env (\<lambda>_. 0)" captioned_image "asc ''jade''"]
    by blast
qed

text \<open>
  C9 at a failing input. The only text of the page names five of the artifact's
  keywords, so the image next to it becomes a keyword-proximity candidate with confidence
  \<open>0.6 + 5 * 0.1\<close>; no other strategy finds the image (the text does not hold the
  artifact's code), and the linker returns it with a confidence above 1.
\<close>

theorem link_confidence_above_one:
  "match_count (extract_keywords artifact_five_keywords (asc ''M12:1''))
      (text_of (page_with_five_keywords ! 0)) = 5
   \<and> (case link_artifact_to_images (basic_env (\<lambda>_. 0)) page_with_five_keywords
             artifact_five_keywords (asc ''jade'') of
         Inr [img] \<Rightarrow> image_hash img = asc ''img_b'' \<and> confidence img = 11 / 10 \<and> 1 < confidence img
       | _ \<Rightarrow> False)"
  by code_simp


section \<open>Cancellation and failed responses\<close>

text \<open>A checkpoint that reads \<open>aborted\<close> logs the warning and raises.\<close>

lemma check_cancellation_aborted:
  "task_status s = ABORTED \<Longrightarrow>
   check_cancellation s = (Some (Exception MSG_CANCELLED), add_log WARNING LOG_CANCEL s)"
  by (simp add: check_cancellation_def)

text \<open>Whatever exception leaves the \<open>try\<close> body, cancellation included, the handler leaves
  the task in status \<open>failed\<close> with two error entries at the end of its log.\<close>

lemma on_exception_failed:
  "task_status (on_exception format_exc e s) = FAILED
   \<and> task_logs (on_exception format_exc e s)
       = task_logs s @ [(ERROR, LOG_FAILED_PREFIX @ exn_msg e),
                        (ERROR, LOG_DETAIL_PREFIX @ take 500 (format_exc e))]"
  by (simp add: on_exception_def add_log_def update_task_status_def)

lemma execute_full_extraction_raises_failed:
  assumes "execute_full_extraction P format_exc s = (Some e, s')"
  shows "task_status s' = FAILED"
    and "\<exists>logs. task_logs s' = logs @ [(ERROR, LOG_FAILED_PREFIX @ exn_msg e),
                                        (ERROR, LOG_DETAIL_PREFIX @ take 500 (format_exc e))]"
proof -
  obtain r s1 where run: "run_steps (try_body P) (add_log INFO LOG_START s) = (r, s1)"
    by (cases "run_steps (try_body P) (add_log INFO LOG_START s)") auto
  from assms run have s': "s' = on_exception format_exc e s1"
    by (cases r) (auto simp: execute_full_extraction_def)
  show "task_status s' = FAILED"
    by (simp add: s' on_exception_failed)
  show "\<exists>logs. task_logs s' = logs @ [(ERROR, LOG_FAILED_PREFIX @ exn_msg e),
                                        (ERROR, LOG_DETAIL_PREFIX @ take 500 (format_exc e))]"
    by (simp add: s' on_exception_failed)
qed

text \<open>
  C1 at a failing input. A pending task is started; while its images are indexed the
  dashboard sets its status to \<open>aborted\<close>; the checkpoint before the site step reads
  that status, logs the warning and raises. The handler of \<open>execute_full_extraction\<close>
  then logs the cancellation message as an error, overwrites \<open>aborted\<close> with \<open>failed\<close>,
  logs the traceback as a second error and raises again: the task ends in status
  \<open>failed\<close>, and its log holds the cancellation once as a warning and twice as an error.
\<close>

theorem cancellation_ends_failed:
  "fst (execute_full_extraction abort_during_indexing example_traceback pending_task)
     = Some (Exception MSG_CANCELLED)
   \<and> task_status (snd (execute_full_extraction abort_during_indexing example_traceback pending_task))
     = FAILED
   \<and> FAILED \<noteq> ABORTED
   \<and> task_logs (snd (execute_full_extraction abort_during_indexing example_traceback pending_task))
     = [(INFO, LOG_START), (INFO, LOG_REGISTER), (WARNING, LOG_CANCEL),
        (ERROR, LOG_FAILED_PREFIX @ MSG_CANCELLED),
        (ERROR, LOG_DETAIL_PREFIX @ example_traceback (Exception MSG_CANCELLED))]"
  by code_simp




end
